theory Spec2Isabelle
  imports Main "HOL-Library.Word"
begin

section \<open>glTF 2.0 exporter: container framing\<close>

subsection \<open>Numbers\<close>

text \<open>
  The remainder operator of the source language keeps the sign of the dividend
  (it truncates towards zero), unlike \<open>mod\<close> on \<open>int\<close>.
\<close>

definition js_rem :: "int \<Rightarrow> int \<Rightarrow> int" where
  "js_rem a b = sgn a * (\<bar>a\<bar> mod \<bar>b\<bar>)"

text \<open>
  \<^verbatim>\<open>
  private _getPadding(num: number): number {
      const remainder = num % 4;
      const padding = remainder === 0 ? remainder : 4 - remainder;
      return padding;
  }
  \<close>
\<close>

definition getPadding :: "int \<Rightarrow> int" where
  "getPadding num =
     (let remainder = js_rem num 4;
          padding = (if remainder = 0 then remainder else 4 - remainder)
      in padding)"

subsection \<open>Byte buffers\<close>

type_synonym byte = "8 word"

text \<open>
  \<open>new ArrayBuffer(n)\<close> is \<open>n\<close> zero bytes. \<open>DataView.setUint32(offset, value, true)\<close>
  converts the value to an unsigned 32-bit integer (modulo \<open>2^32\<close>) and stores its four
  bytes at \<open>offset\<close>, least significant first. Every such write of the exporter lies
  inside its buffer.
\<close>

definition newArrayBuffer :: "int \<Rightarrow> byte list" where
  "newArrayBuffer n = replicate (nat n) 0"

definition toUint32 :: "int \<Rightarrow> int" where
  "toUint32 v = v mod 2 ^ 32"

definition uint32Bytes :: "int \<Rightarrow> byte list" where
  "uint32Bytes v =
     (let u = toUint32 v
      in [word_of_int (u mod 256), word_of_int (u div 256 mod 256),
          word_of_int (u div 65536 mod 256), word_of_int (u div 16777216 mod 256)])"

definition writeBytes :: "byte list \<Rightarrow> nat \<Rightarrow> byte list \<Rightarrow> byte list" where
  "writeBytes buffer offset bytes =
     take offset buffer @ bytes @ drop (offset + length bytes) buffer"

definition setUint32 :: "byte list \<Rightarrow> nat \<Rightarrow> int \<Rightarrow> byte list" where
  "setUint32 buffer byteOffset v = writeBytes buffer byteOffset (uint32Bytes v)"

text \<open>The reader's side: four bytes at \<open>byteOffset\<close>, little-endian.\<close>

definition getUint32 :: "byte list \<Rightarrow> nat \<Rightarrow> int" where
  "getUint32 buffer byteOffset =
     uint (buffer ! byteOffset) + 256 * uint (buffer ! (byteOffset + 1))
       + 65536 * uint (buffer ! (byteOffset + 2))
       + 16777216 * uint (buffer ! (byteOffset + 3))"

subsection \<open>The JSON text\<close>

text \<open>
  A string of the source language is a sequence of UTF-16 code units.
  \<open>codePointAt i\<close> differs from \<open>charCodeAt i\<close> exactly at a high surrogate that is
  followed by a low surrogate.
\<close>

type_synonym jsString = "nat list"

definition charCodeAt :: "jsString \<Rightarrow> nat \<Rightarrow> nat" where
  "charCodeAt text i = text ! i"

definition codePointAt :: "jsString \<Rightarrow> nat \<Rightarrow> nat" where
  "codePointAt text i =
     (let hi = text ! i
      in if 55296 \<le> hi \<and> hi \<le> 56319 \<and> i + 1 < length text
            \<and> 56320 \<le> text ! (i + 1) \<and> text ! (i + 1) \<le> 57343
         then (hi - 55296) * 1024 + (text ! (i + 1) - 56320) + 65536
         else hi)"

text \<open>
  \<^verbatim>\<open>
  const blankCharCode = "_".charCodeAt(0);
  for (let i = 0; i < jsonLength; ++i) {
      const charCode = jsonText.charCodeAt(i);
      if (charCode != jsonText.codePointAt(i)) { jsonData[i] = blankCharCode; }
      else { jsonData[i] = charCode; }
  }
  \<close>
  A store into a \<open>Uint8Array\<close> keeps the value modulo 256.
\<close>

definition blankCharCode :: nat where
  "blankCharCode = 95"

definition fallbackJsonBytes :: "jsString \<Rightarrow> byte list" where
  "fallbackJsonBytes jsonText =
     map (\<lambda>i. let charCode = charCodeAt jsonText i
               in if charCode \<noteq> codePointAt jsonText i then of_nat blankCharCode
                  else of_nat charCode)
       [0 ..< length jsonText]"

subsection \<open>The binary container\<close>

text \<open>
  \<open>generateGLBAsync\<close>, from the point where the geometry buffer and the JSON text are
  at hand. Its inputs: the \<open>TextEncoder\<close> of the platform if there is one (its
  \<open>encode\<close> method), the JSON text, the geometry buffer and the image data in the order
  in which \<open>_generateJSON\<close> queued it. The result is the content of the blob, the
  concatenation of the parts of \<open>glbData\<close>.
  \<^verbatim>\<open>
  const headerLength = 12;
  const chunkLengthPrefix = 8;
  let jsonLength = jsonText.length;
  let encodedJsonText;
  let imageByteLength = 0;
  if (typeof TextEncoder !== "undefined") {
      const encoder = new TextEncoder();
      encodedJsonText = encoder.encode(jsonText);
      jsonLength = encodedJsonText.length;
  }
  for (let i = 0; i < this._orderedImageData.length; ++i) {
      imageByteLength += this._orderedImageData[i].data.byteLength;
  }
  const jsonPadding = this._getPadding(jsonLength);
  const binPadding = this._getPadding(binaryBuffer.byteLength);
  const imagePadding = this._getPadding(imageByteLength);
  const byteLength = headerLength + 2 * chunkLengthPrefix + jsonLength + jsonPadding
      + binaryBuffer.byteLength + binPadding + imageByteLength + imagePadding;
  \<close>
\<close>

definition headerLength :: int where
  "headerLength = 12"

definition chunkLengthPrefix :: int where
  "chunkLengthPrefix = 8"

definition byteLengthOf :: "byte list \<Rightarrow> int" where
  "byteLengthOf data = int (length data)"

definition encodedJson :: "(jsString \<Rightarrow> byte list) option \<Rightarrow> jsString \<Rightarrow> byte list" where
  "encodedJson TextEncoder jsonText =
     (case TextEncoder of
        Some encode \<Rightarrow> encode jsonText
      | None \<Rightarrow> fallbackJsonBytes jsonText)"

definition jsonLengthOf :: "(jsString \<Rightarrow> byte list) option \<Rightarrow> jsString \<Rightarrow> int" where
  "jsonLengthOf TextEncoder jsonText =
     (case TextEncoder of
        Some encode \<Rightarrow> byteLengthOf (encode jsonText)
      | None \<Rightarrow> int (length jsonText))"

definition imageByteLengthOf :: "byte list list \<Rightarrow> int" where
  "imageByteLengthOf orderedImageData = foldl (\<lambda>n d. n + byteLengthOf d) 0 orderedImageData"

definition totalByteLength ::
  "(jsString \<Rightarrow> byte list) option \<Rightarrow> jsString \<Rightarrow> byte list \<Rightarrow> byte list list \<Rightarrow> int" where
  "totalByteLength TextEncoder jsonText binaryBuffer orderedImageData =
     (let jsonLength = jsonLengthOf TextEncoder jsonText;
          imageByteLength = imageByteLengthOf orderedImageData;
          jsonPadding = getPadding jsonLength;
          binPadding = getPadding (byteLengthOf binaryBuffer);
          imagePadding = getPadding imageByteLength
      in headerLength + 2 * chunkLengthPrefix + jsonLength + jsonPadding
           + byteLengthOf binaryBuffer + binPadding + imageByteLength + imagePadding)"

text \<open>
  \<^verbatim>\<open>
  const headerBuffer = new ArrayBuffer(headerLength);
  const headerBufferView = new DataView(headerBuffer);
  headerBufferView.setUint32(0, 0x46546c67, true); //glTF
  headerBufferView.setUint32(4, 2, true); // version
  headerBufferView.setUint32(8, byteLength, true); // total bytes in file
  \<close>
\<close>

definition headerBuffer :: "int \<Rightarrow> byte list" where
  "headerBuffer totalLength =
     (let buffer = newArrayBuffer headerLength;
          buffer = setUint32 buffer 0 0x46546c67;
          buffer = setUint32 buffer 4 2;
          buffer = setUint32 buffer 8 totalLength
      in buffer)"

text \<open>
  \<^verbatim>\<open>
  const jsonChunkBuffer = new ArrayBuffer(chunkLengthPrefix + jsonLength + jsonPadding);
  const jsonChunkBufferView = new DataView(jsonChunkBuffer);
  jsonChunkBufferView.setUint32(0, jsonLength + jsonPadding, true);
  jsonChunkBufferView.setUint32(4, 0x4e4f534a, true);
  const jsonData = new Uint8Array(jsonChunkBuffer, chunkLengthPrefix);
  if (encodedJsonText) { jsonData.set(encodedJsonText); } else { ... }
  const jsonPaddingView = new Uint8Array(jsonChunkBuffer, chunkLengthPrefix + jsonLength);
  for (let i = 0; i < jsonPadding; ++i) { jsonPaddingView[i] = 0x20; }
  \<close>
\<close>

definition jsonChunkBuffer :: "(jsString \<Rightarrow> byte list) option \<Rightarrow> jsString \<Rightarrow> byte list" where
  "jsonChunkBuffer TextEncoder jsonText =
     (let jsonLength = jsonLengthOf TextEncoder jsonText;
          jsonPadding = getPadding jsonLength;
          buffer = newArrayBuffer (chunkLengthPrefix + jsonLength + jsonPadding);
          buffer = setUint32 buffer 0 (jsonLength + jsonPadding);
          buffer = setUint32 buffer 4 0x4e4f534a;
          buffer = writeBytes buffer (nat chunkLengthPrefix) (encodedJson TextEncoder jsonText);
          buffer = writeBytes buffer (nat (chunkLengthPrefix + jsonLength))
                     (replicate (nat jsonPadding) 0x20)
      in buffer)"

text \<open>
  \<^verbatim>\<open>
  const binaryChunkBuffer = new ArrayBuffer(chunkLengthPrefix);
  const binaryChunkBufferView = new DataView(binaryChunkBuffer);
  binaryChunkBufferView.setUint32(0, binaryBuffer.byteLength + imageByteLength + imagePadding, true);
  binaryChunkBufferView.setUint32(4, 0x004e4942, true);
  \<close>
\<close>

definition binaryChunkBuffer :: "byte list \<Rightarrow> byte list list \<Rightarrow> byte list" where
  "binaryChunkBuffer binaryBuffer orderedImageData =
     (let imageByteLength = imageByteLengthOf orderedImageData;
          imagePadding = getPadding imageByteLength;
          buffer = newArrayBuffer chunkLengthPrefix;
          buffer = setUint32 buffer 0 (byteLengthOf binaryBuffer + imageByteLength + imagePadding);
          buffer = setUint32 buffer 4 0x004e4942
      in buffer)"

text \<open>
  \<^verbatim>\<open>
  const binPaddingBuffer = new ArrayBuffer(binPadding);      // filled with 0
  const imagePaddingBuffer = new ArrayBuffer(imagePadding);  // filled with 0
  const glbData = [headerBuffer, jsonChunkBuffer, binaryChunkBuffer, binaryBuffer];
  for (let i = 0; i < this._orderedImageData.length; ++i) {
      glbData.push(this._orderedImageData[i].data);
  }
  glbData.push(binPaddingBuffer);
  glbData.push(imagePaddingBuffer);
  const glbFile = new Blob(glbData, { type: "application/octet-stream" });
  \<close>
\<close>

definition glbData ::
  "(jsString \<Rightarrow> byte list) option \<Rightarrow> jsString \<Rightarrow> byte list \<Rightarrow> byte list list
     \<Rightarrow> byte list list" where
  "glbData TextEncoder jsonText binaryBuffer orderedImageData =
     (let binPadding = getPadding (byteLengthOf binaryBuffer);
          imagePadding = getPadding (imageByteLengthOf orderedImageData);
          binPaddingBuffer = newArrayBuffer binPadding;
          imagePaddingBuffer = newArrayBuffer imagePadding
      in [headerBuffer (totalByteLength TextEncoder jsonText binaryBuffer orderedImageData),
          jsonChunkBuffer TextEncoder jsonText,
          binaryChunkBuffer binaryBuffer orderedImageData,
          binaryBuffer]
         @ orderedImageData
         @ [binPaddingBuffer]
         @ [imagePaddingBuffer])"

definition generateGLB ::
  "(jsString \<Rightarrow> byte list) option \<Rightarrow> jsString \<Rightarrow> byte list \<Rightarrow> byte list list \<Rightarrow> byte list" where
  "generateGLB TextEncoder jsonText binaryBuffer orderedImageData =
     concat (glbData TextEncoder jsonText binaryBuffer orderedImageData)"

text \<open>
  Where the binary chunk starts in the file: after the header and the JSON chunk.
\<close>

definition binaryChunkStart :: "(jsString \<Rightarrow> byte list) option \<Rightarrow> jsString \<Rightarrow> nat" where
  "binaryChunkStart TextEncoder jsonText =
     nat (headerLength + chunkLengthPrefix + jsonLengthOf TextEncoder jsonText
            + getPadding (jsonLengthOf TextEncoder jsonText))"


section \<open>glTF 2.0 exporter: utilities\<close>

subsection \<open>Numbers of the source language\<close>

text \<open>
  A number of the source language, as far as comparisons and truthiness tests see it: a
  finite value, one of the two infinities, or \<open>NaN\<close>. Every comparison with \<open>NaN\<close> is
  false. A number is falsy when it is zero or \<open>NaN\<close>; the empty string is the one falsy
  string.
\<close>

datatype 'a number = NaN | NegInfinity | Finite 'a | Infinity

fun truthy_number :: "'a::zero number \<Rightarrow> bool" where
  "truthy_number NaN = False"
| "truthy_number (Finite x) = (x \<noteq> 0)"
| "truthy_number NegInfinity = True"
| "truthy_number Infinity = True"

definition truthy_string :: "string \<Rightarrow> bool" where
  "truthy_string s = (s \<noteq> [])"

subsection \<open>Descriptors of the output document\<close>

text \<open>
  A field of an output object that the code may leave unset is an \<open>option\<close>;
  \<open>None\<close> is the omitted field. An optional argument is an \<open>option\<close> too, with
  \<open>None\<close> for \<open>undefined\<close> (or \<open>null\<close> where the type is \<open>Nullable\<close>). The type
  \<open>'o\<close> is that of the finite values of indices, counts and byte offsets.
\<close>

record 'o IBufferView =
  bv_buffer :: "'o number"
  bv_byteLength :: "'o number"
  bv_byteOffset :: "'o number option"
  bv_name :: "string option"
  bv_byteStride :: "'o number option"

datatype AccessorType = SCALAR | VEC2 | VEC3 | VEC4 | MAT2 | MAT3 | MAT4

datatype AccessorComponentType =
  BYTE | UNSIGNED_BYTE | SHORT | UNSIGNED_SHORT | UNSIGNED_INT | FLOAT

datatype MeshPrimitiveMode =
  POINTS | LINES | LINE_LOOP | LINE_STRIP | TRIANGLES | TRIANGLE_STRIP | TRIANGLE_FAN

record ('n, 'o) IAccessor =
  acc_bufferView :: "'o number"
  acc_componentType :: AccessorComponentType
  acc_count :: "'o number"
  acc_type :: AccessorType
  acc_min :: "'n list option"
  acc_max :: "'n list option"
  acc_byteOffset :: "'o number option"

text \<open>
  \<^verbatim>\<open>
  export function createBufferView(bufferIndex, byteOffset, byteLength, byteStride?, name?) {
      const bufferview: IBufferView = { buffer: bufferIndex, byteLength: byteLength };
      if (byteOffset) { bufferview.byteOffset = byteOffset; }
      if (name) { bufferview.name = name; }
      if (byteStride) { bufferview.byteStride = byteStride; }
      return bufferview;
  }
  \<close>
  The three tests are truthiness tests.
\<close>

definition createBufferView ::
  "'o::zero number \<Rightarrow> 'o number \<Rightarrow> 'o number \<Rightarrow> 'o number option \<Rightarrow> string option
     \<Rightarrow> 'o IBufferView" where
  "createBufferView bufferIndex byteOffset byteLength byteStride name =
     (let bufferview = \<lparr>bv_buffer = bufferIndex, bv_byteLength = byteLength,
                          bv_byteOffset = None, bv_name = None, bv_byteStride = None\<rparr>;
          bufferview = (if truthy_number byteOffset
                        then bufferview\<lparr>bv_byteOffset := Some byteOffset\<rparr>
                        else bufferview);
          bufferview = (case name of
                          Some n \<Rightarrow> if truthy_string n
                                    then bufferview\<lparr>bv_name := Some n\<rparr> else bufferview
                        | None \<Rightarrow> bufferview);
          bufferview = (case byteStride of
                          Some st \<Rightarrow> if truthy_number st
                                     then bufferview\<lparr>bv_byteStride := Some st\<rparr>
                                     else bufferview
                        | None \<Rightarrow> bufferview)
      in bufferview)"

text \<open>
  \<^verbatim>\<open>
  export function createAccessor(bufferViewIndex, type, componentType, count,
                                 byteOffset, min, max): IAccessor {
      const accessor = { bufferView: bufferViewIndex, componentType: componentType,
                         count: count, type: type };
      if (min != null) { accessor.min = min; }
      if (max != null) { accessor.max = max; }
      if (byteOffset != null) { accessor.byteOffset = byteOffset; }
      return accessor;
  }
  \<close>
  The three tests compare with \<open>null\<close>; every number passes them, \<open>NaN\<close> and zero
  included.
\<close>

definition createAccessor ::
  "'o number \<Rightarrow> AccessorType \<Rightarrow> AccessorComponentType \<Rightarrow> 'o number \<Rightarrow> 'o number option
     \<Rightarrow> 'n list option \<Rightarrow> 'n list option \<Rightarrow> ('n, 'o) IAccessor" where
  "createAccessor bufferViewIndex type componentType count byteOffset min' max' =
     (let accessor = \<lparr>acc_bufferView = bufferViewIndex, acc_componentType = componentType,
                        acc_count = count, acc_type = type,
                        acc_min = None, acc_max = None, acc_byteOffset = None\<rparr>;
          accessor = (case min' of Some m \<Rightarrow> accessor\<lparr>acc_min := Some m\<rparr>
                                | None \<Rightarrow> accessor);
          accessor = (case max' of Some m \<Rightarrow> accessor\<lparr>acc_max := Some m\<rparr>
                                | None \<Rightarrow> accessor);
          accessor = (case byteOffset of Some b \<Rightarrow> accessor\<lparr>acc_byteOffset := Some b\<rparr>
                                       | None \<Rightarrow> accessor)
      in accessor)"

subsection \<open>Bounds of a position run\<close>

text \<open>
  The comparison \<open><\<close> of two numbers; the finite values are those of a linear order.
\<close>

fun num_less :: "'a::linorder number \<Rightarrow> 'a number \<Rightarrow> bool" where
  "num_less NaN _ = False"
| "num_less _ NaN = False"
| "num_less _ NegInfinity = False"
| "num_less NegInfinity _ = True"
| "num_less Infinity _ = False"
| "num_less (Finite x) Infinity = True"
| "num_less (Finite x) (Finite y) = (x < y)"

text \<open>
  Reading an array past its end gives \<open>undefined\<close>, which a comparison converts to
  \<open>NaN\<close>.
\<close>

definition readAt :: "'a number list \<Rightarrow> nat \<Rightarrow> 'a number" where
  "readAt array i = (if i < length array then array ! i else NaN)"

text \<open>
  Modelled from the spec: \<open>Vector3.FromArray(array, offset).asArray()\<close> belongs to
  the math library, which is not part of the sources at hand. The positions are a
  tightly-packed run of 3-component tuples, so the vector built at \<open>offset\<close> holds the
  three consecutive elements starting there.
\<close>

definition Vector3_FromArray :: "'a number list \<Rightarrow> nat \<Rightarrow> 'a number list" where
  "Vector3_FromArray array offset =
     [readAt array offset, readAt array (offset + 1), readAt array (offset + 2)]"

text \<open>
  \<^verbatim>\<open>
  const num = vector[j];
  if (num < min[j]) { min[j] = num; }
  if (num > max[j]) { max[j] = num; }
  \<close>
\<close>

definition minMaxStep ::
  "'a::linorder number list \<Rightarrow> 'a number list \<times> 'a number list \<Rightarrow> nat
     \<Rightarrow> 'a number list \<times> 'a number list" where
  "minMaxStep vector mm j =
     (let num = vector ! j;
          min' = fst mm; max' = snd mm;
          min' = (if num_less num (min' ! j) then min'[j := num] else min');
          max' = (if num_less (max' ! j) num then max'[j := num] else max')
      in (min', max'))"

text \<open>
  \<^verbatim>\<open>
  for (let i = vertexStart, length = vertexStart + vertexCount; i < length; ++i) {
      indexOffset = positionStrideSize * i;
      position = Vector3.FromArray(positions, indexOffset);
      vector = position.asArray();
      for (let j = 0; j < positionStrideSize; ++j) { ... }
  }
  \<close>
\<close>

definition positionStrideSize :: nat where
  "positionStrideSize = 3"

function minMaxLoop ::
  "'a::linorder number list \<Rightarrow> nat \<Rightarrow> nat \<Rightarrow> 'a number list \<times> 'a number list
     \<Rightarrow> 'a number list \<times> 'a number list" where
  "minMaxLoop positions i len mm =
     (if i < len
      then minMaxLoop positions (i + 1) len
             (foldl (minMaxStep (Vector3_FromArray positions (positionStrideSize * i)))
                mm [0 ..< positionStrideSize])
      else mm)"
  by pat_completeness auto
termination
  by (relation "measure (\<lambda>(positions, i, len, mm). len - i)") auto

text \<open>
  \<^verbatim>\<open>
  export function calculateMinMaxPositions(positions, vertexStart, vertexCount) {
      const min = [Infinity, Infinity, Infinity];
      const max = [-Infinity, -Infinity, -Infinity];
      if (vertexCount) { for ... }
      return [min, max];
  }
  \<close>
\<close>

definition calculateMinMaxPositions ::
  "'a::linorder number list \<Rightarrow> nat \<Rightarrow> nat \<Rightarrow> 'a number list \<times> 'a number list" where
  "calculateMinMaxPositions positions vertexStart vertexCount =
     (let min' = [Infinity, Infinity, Infinity];
          max' = [NegInfinity, NegInfinity, NegInfinity]
      in if vertexCount \<noteq> 0
         then minMaxLoop positions vertexStart (vertexStart + vertexCount) (min', max')
         else (min', max'))"


subsection \<open>Closed mappings of attribute kinds and fill modes\<close>

datatype error =
  UnknownKind string
| UnknownFillMode int
| BufferDataNotAvailable
| MissingPositionData
| HookFailure string

text \<open>
  The attribute kinds are string constants of \<open>VertexBuffer\<close>, and the fill modes
  number constants of \<open>Material\<close>. Both classes live in the core library, outside the
  sources at hand, so the constants are parameters of the mappings.
\<close>

record VertexBufferKinds =
  PositionKind :: string
  NormalKind :: string
  TangentKind :: string
  ColorKind :: string
  UVKind :: string
  UV2Kind :: string
  UV3Kind :: string
  UV4Kind :: string
  UV5Kind :: string
  UV6Kind :: string
  MatricesIndicesKind :: string
  MatricesIndicesExtraKind :: string
  MatricesWeightsKind :: string
  MatricesWeightsExtraKind :: string

record MaterialModes =
  TriangleFillMode :: int
  TriangleStripDrawMode :: int
  TriangleFanDrawMode :: int
  PointListDrawMode :: int
  PointFillMode :: int
  LineLoopDrawMode :: int
  LineListDrawMode :: int
  LineStripDrawMode :: int

text \<open>
  A \<open>switch\<close> takes the first case that equals the scrutinee; the cases are tested in
  the order of the source. Falling out of the \<open>switch\<close> reaches the \<open>throw\<close>.
\<close>

definition getAccessorType :: "VertexBufferKinds \<Rightarrow> string \<Rightarrow> error + AccessorType" where
  "getAccessorType VertexBuffer kind =
     (if kind = PositionKind VertexBuffer \<or> kind = NormalKind VertexBuffer
        then Inr VEC3
      else if kind = ColorKind VertexBuffer \<or> kind = TangentKind VertexBuffer
            \<or> kind = MatricesIndicesKind VertexBuffer
            \<or> kind = MatricesIndicesExtraKind VertexBuffer
            \<or> kind = MatricesWeightsKind VertexBuffer
            \<or> kind = MatricesWeightsExtraKind VertexBuffer
        then Inr VEC4
      else if kind = UVKind VertexBuffer \<or> kind = UV2Kind VertexBuffer
            \<or> kind = UV3Kind VertexBuffer \<or> kind = UV4Kind VertexBuffer
            \<or> kind = UV5Kind VertexBuffer \<or> kind = UV6Kind VertexBuffer
        then Inr VEC2
      else Inl (UnknownKind kind))"

definition getAttributeType :: "VertexBufferKinds \<Rightarrow> string \<Rightarrow> error + string" where
  "getAttributeType VertexBuffer kind =
     (if kind = PositionKind VertexBuffer then Inr ''POSITION''
      else if kind = NormalKind VertexBuffer then Inr ''NORMAL''
      else if kind = TangentKind VertexBuffer then Inr ''TANGENT''
      else if kind = ColorKind VertexBuffer then Inr ''COLOR_0''
      else if kind = UVKind VertexBuffer then Inr ''TEXCOORD_0''
      else if kind = UV2Kind VertexBuffer then Inr ''TEXCOORD_1''
      else if kind = UV3Kind VertexBuffer then Inr ''TEXCOORD_2''
      else if kind = UV4Kind VertexBuffer then Inr ''TEXCOORD_3''
      else if kind = UV5Kind VertexBuffer then Inr ''TEXCOORD_4''
      else if kind = UV6Kind VertexBuffer then Inr ''TEXCOORD_5''
      else if kind = MatricesIndicesKind VertexBuffer then Inr ''JOINTS_0''
      else if kind = MatricesIndicesExtraKind VertexBuffer then Inr ''JOINTS_1''
      else if kind = MatricesWeightsKind VertexBuffer then Inr ''WEIGHTS_0''
      else if kind = MatricesWeightsExtraKind VertexBuffer then Inr ''WEIGHTS_1''
      else Inl (UnknownKind kind))"

definition getPrimitiveMode :: "MaterialModes \<Rightarrow> int \<Rightarrow> error + MeshPrimitiveMode" where
  "getPrimitiveMode Material fillMode =
     (if fillMode = TriangleFillMode Material then Inr TRIANGLES
      else if fillMode = TriangleStripDrawMode Material then Inr TRIANGLE_STRIP
      else if fillMode = TriangleFanDrawMode Material then Inr TRIANGLE_FAN
      else if fillMode = PointListDrawMode Material then Inr POINTS
      else if fillMode = PointFillMode Material then Inr POINTS
      else if fillMode = LineLoopDrawMode Material then Inr LINE_LOOP
      else if fillMode = LineListDrawMode Material then Inr LINES
      else if fillMode = LineStripDrawMode Material then Inr LINE_STRIP
      else Inl (UnknownFillMode fillMode))"

text \<open>The kinds and fill modes that the three \<open>switch\<close> statements list.\<close>

definition attributeKinds :: "VertexBufferKinds \<Rightarrow> string list" where
  "attributeKinds VertexBuffer =
     [PositionKind VertexBuffer, NormalKind VertexBuffer, TangentKind VertexBuffer,
      ColorKind VertexBuffer,
      UVKind VertexBuffer, UV2Kind VertexBuffer, UV3Kind VertexBuffer,
      UV4Kind VertexBuffer, UV5Kind VertexBuffer, UV6Kind VertexBuffer,
      MatricesIndicesKind VertexBuffer, MatricesIndicesExtraKind VertexBuffer,
      MatricesWeightsKind VertexBuffer, MatricesWeightsExtraKind VertexBuffer]"

definition mappedFillModes :: "MaterialModes \<Rightarrow> int list" where
  "mappedFillModes Material =
     [TriangleFillMode Material, TriangleStripDrawMode Material,
      TriangleFanDrawMode Material, PointListDrawMode Material, PointFillMode Material,
      LineLoopDrawMode Material, LineListDrawMode Material, LineStripDrawMode Material]"

section \<open>glTF 2.0 exporter: state and mesh export\<close>

subsection \<open>Exporter state\<close>

text \<open>
  The caches are keyed by the identity of source objects (indices arrays, buffers,
  vertex buffers, meshes). An object's identity is a \<open>handle\<close>.
  \<^verbatim>\<open>
  class ExporterState {
      private _indicesBufferViewMap = new Map<IndicesArray, number>();
      private _indicesAccessorMap = new Map<IndicesArray, Map<number, Map<number, number>>>();
      private _attributeBufferViewMap = new Map<Buffer, number>();
      private _attributeAccessorMap = new Map<VertexBuffer, Map<number, Map<number, number>>>();
      private _meshMap = new Map<Mesh, number>();
  \<close>
\<close>

type_synonym handle = nat

record ExporterState =
  indicesBufferViewMap :: "handle \<rightharpoonup> int"
  indicesAccessorMap :: "handle \<rightharpoonup> (int \<rightharpoonup> (int \<rightharpoonup> int))"
  attributeBufferViewMap :: "handle \<rightharpoonup> int"
  attributeAccessorMap :: "handle \<rightharpoonup> (int \<rightharpoonup> (int \<rightharpoonup> int))"
  meshMap :: "handle \<rightharpoonup> int"

definition newExporterState :: ExporterState where
  "newExporterState =
     \<lparr>indicesBufferViewMap = Map.empty, indicesAccessorMap = Map.empty,
      attributeBufferViewMap = Map.empty, attributeAccessorMap = Map.empty,
      meshMap = Map.empty\<rparr>"

definition getIndicesBufferView :: "ExporterState \<Rightarrow> handle \<Rightarrow> int option" where
  "getIndicesBufferView this indices = indicesBufferViewMap this indices"

definition setIndicesBufferView :: "ExporterState \<Rightarrow> handle \<Rightarrow> int \<Rightarrow> ExporterState" where
  "setIndicesBufferView this indices bufferViewIndex =
     this\<lparr>indicesBufferViewMap := (indicesBufferViewMap this)(indices \<mapsto> bufferViewIndex)\<rparr>"

text \<open>
  \<^verbatim>\<open>
  public getIndicesAccessor(indices, indexStart, indexCount): number | undefined {
      const map1 = this._indicesAccessorMap.get(indices);
      if (!map1) { return undefined; }
      const map2 = map1.get(indexStart);
      if (!map2) { return undefined; }
      return map2.get(indexCount);
  }
  \<close>
\<close>

definition getIndicesAccessor :: "ExporterState \<Rightarrow> handle \<Rightarrow> int \<Rightarrow> int \<Rightarrow> int option" where
  "getIndicesAccessor this indices indexStart indexCount =
     (case indicesAccessorMap this indices of
        None \<Rightarrow> None
      | Some map1 \<Rightarrow>
          (case map1 indexStart of
             None \<Rightarrow> None
           | Some map2' \<Rightarrow> map2' indexCount))"

text \<open>
  \<^verbatim>\<open>
  public setIndicesAccessor(indices, indexStart, indexCount, accessorIndex): void {
      const map1 = this._indicesAccessorMap.get(indices) ?? new Map<number, Map<number, number>>();
      const map2 = map1.get(indexStart) ?? new Map<number, number>();
      map2.set(indexCount, accessorIndex);
  }
  \<close>
  A \<open>Map\<close> is an object: \<open>map2.set\<close> changes the state only if \<open>map2\<close> is the map
  stored in \<open>map1\<close> and \<open>map1\<close> the map stored in the state. A map made by \<open>new Map\<close>
  here is stored nowhere, and what is set in it is lost when the method returns.
\<close>

definition setIndicesAccessor ::
  "ExporterState \<Rightarrow> handle \<Rightarrow> int \<Rightarrow> int \<Rightarrow> int \<Rightarrow> ExporterState" where
  "setIndicesAccessor this indices indexStart indexCount accessorIndex =
     (case indicesAccessorMap this indices of
        None \<Rightarrow> this
      | Some map1 \<Rightarrow>
          (case map1 indexStart of
             None \<Rightarrow> this
           | Some map2' \<Rightarrow>
               this\<lparr>indicesAccessorMap :=
                 (indicesAccessorMap this)
                   (indices \<mapsto> map1(indexStart \<mapsto> map2'(indexCount \<mapsto> accessorIndex)))\<rparr>))"

definition getAttributeBufferView :: "ExporterState \<Rightarrow> handle \<Rightarrow> int option" where
  "getAttributeBufferView this buffer = attributeBufferViewMap this buffer"

definition setAttributeBufferView :: "ExporterState \<Rightarrow> handle \<Rightarrow> int \<Rightarrow> ExporterState" where
  "setAttributeBufferView this buffer bufferViewIndex =
     this\<lparr>attributeBufferViewMap := (attributeBufferViewMap this)(buffer \<mapsto> bufferViewIndex)\<rparr>"

text \<open>
  \<open>getAttributeAccessor\<close> and \<open>setAttributeAccessor\<close> are written like the two methods
  for indices, on \<open>_attributeAccessorMap\<close>.
\<close>

definition getAttributeAccessor :: "ExporterState \<Rightarrow> handle \<Rightarrow> int \<Rightarrow> int \<Rightarrow> int option" where
  "getAttributeAccessor this vertexBuffer vertexStart vertexCount =
     (case attributeAccessorMap this vertexBuffer of
        None \<Rightarrow> None
      | Some map1 \<Rightarrow>
          (case map1 vertexStart of
             None \<Rightarrow> None
           | Some map2' \<Rightarrow> map2' vertexCount))"

definition setAttributeAccessor ::
  "ExporterState \<Rightarrow> handle \<Rightarrow> int \<Rightarrow> int \<Rightarrow> int \<Rightarrow> ExporterState" where
  "setAttributeAccessor this vertexBuffer vertexStart vertexCount accessorIndex =
     (case attributeAccessorMap this vertexBuffer of
        None \<Rightarrow> this
      | Some map1 \<Rightarrow>
          (case map1 vertexStart of
             None \<Rightarrow> this
           | Some map2' \<Rightarrow>
               this\<lparr>attributeAccessorMap :=
                 (attributeAccessorMap this)
                   (vertexBuffer \<mapsto> map1(vertexStart \<mapsto> map2'(vertexCount \<mapsto> accessorIndex)))\<rparr>))"

definition getMesh :: "ExporterState \<Rightarrow> handle \<Rightarrow> int option" where
  "getMesh this mesh = meshMap this mesh"

definition setMesh :: "ExporterState \<Rightarrow> handle \<Rightarrow> int \<Rightarrow> ExporterState" where
  "setMesh this mesh meshIndex = this\<lparr>meshMap := (meshMap this)(mesh \<mapsto> meshIndex)\<rparr>"

subsection \<open>Source geometry\<close>

text \<open>
  An indices array is a plain \<open>Array\<close> of numbers or a typed array with its
  \<open>BYTES_PER_ELEMENT\<close>.
  \<^verbatim>\<open>
  function isIndicesArray32Bits(indices: IndicesArray): boolean {
      return indices instanceof Array ? indices.some((value) => value >= 65536)
                                      : indices.BYTES_PER_ELEMENT === 4;
  }
  \<close>
\<close>

datatype IndicesStorage = PlainArray | TypedArray nat

record IndicesArray =
  ia_id :: handle
  ia_storage :: IndicesStorage
  ia_values :: "nat list"

definition isIndicesArray32Bits :: "IndicesArray \<Rightarrow> bool" where
  "isIndicesArray32Bits indices =
     (case ia_storage indices of
        PlainArray \<Rightarrow> list_ex (\<lambda>v. v \<ge> 65536) (ia_values indices)
      | TypedArray bytesPerElement \<Rightarrow> bytesPerElement = 4)"

text \<open>
  \<open>indicesArrayToUint8Array\<close>: the bytes of the indices, as 16-bit or 32-bit elements
  for a plain array and in the element width of a typed array. Typed arrays lay their
  elements out in the byte order of the platform, taken to be little-endian.
\<close>

definition elementBytes :: "nat \<Rightarrow> nat \<Rightarrow> byte list" where
  "elementBytes width v = map (\<lambda>k. of_nat (v div 256 ^ k mod 256)) [0 ..< width]"

definition indicesArrayToUint8Array :: "IndicesArray \<Rightarrow> bool \<Rightarrow> byte list" where
  "indicesArrayToUint8Array indices is32Bits =
     (case ia_storage indices of
        PlainArray \<Rightarrow>
          concat (map (elementBytes (if is32Bits then 4 else 2)) (ia_values indices))
      | TypedArray bytesPerElement \<Rightarrow>
          concat (map (elementBytes bytesPerElement) (ia_values indices)))"

text \<open>
  A \<open>Buffer\<close> with the bytes that \<open>dataArrayToUint8Array(buffer.getData())\<close> yields
  (\<open>None\<close> when \<open>getData()\<close> is null); how floats are laid out in bytes is not modelled.
  A \<open>VertexBuffer\<close> is a typed window on a buffer.
\<close>

record Buffer =
  buf_id :: handle
  buf_data :: "byte list option"

record 'a VertexBuffer =
  vb_id :: handle
  vb_kind :: string
  vb_buffer :: Buffer
  vb_byteOffset :: int
  vb_byteStride :: int
  vb_type :: AccessorComponentType
  vb_floatData :: "'a number list option"

datatype MaterialClass =
  PBRMaterialClass | StandardMaterialClass | MultiMaterialClass | OtherMaterialClass

datatype Material =
  BabylonMaterial (mat_id: handle) (mat_class: MaterialClass) (mat_fillMode: int)
    (mat_subMaterials: "Material option list")

record SubMesh =
  indexStart :: int
  indexCount :: int
  verticesStart :: nat
  verticesCount :: nat
  sm_materialIndex :: nat
  sm_material :: "Material option"

text \<open>
  A mesh: \<open>mesh_indices\<close> is \<open>getIndices()\<close>, \<open>mesh_vertexBuffers\<close> is
  \<open>geometry?.getVertexBuffers()\<close> with its keys in enumeration order, and
  \<open>mesh_hasGeometry\<close> tells whether \<open>geometry\<close> is set.
\<close>

record 'a Mesh =
  mesh_id :: handle
  isUnIndexed :: bool
  mesh_indices :: "IndicesArray option"
  mesh_hasGeometry :: bool
  mesh_vertexBuffers :: "(string \<times> 'a VertexBuffer) list option"
  subMeshes :: "SubMesh list"
  overrideRenderingFillMode :: "int option"

subsection \<open>The output under construction\<close>

record IMeshPrimitive =
  prim_attributes :: "string \<rightharpoonup> int"
  prim_indices :: "int option"
  prim_material :: "int option"
  prim_mode :: "MeshPrimitiveMode option"

record IMesh =
  primitives :: "IMeshPrimitive list"

record 'a INode =
  node_name :: "string option"
  node_translation :: "'a number list option"
  node_scale :: "'a number list option"
  node_rotation :: "'a number list option"
  node_mesh :: "int option"
  node_children :: "int list option"

text \<open>
  Modelled from the spec: the \<open>DataWriter\<close> is not part of the sources at hand. It
  is a sequential, append-only byte sink; \<open>writeUint8Array\<close> appends a byte sequence
  and advances \<open>byteOffset\<close> by its length, and \<open>getOutputData\<close> returns exactly the
  bytes written. The writer is the list of the bytes written so far.
\<close>

type_synonym DataWriter = "byte list"

definition dw_byteOffset :: "DataWriter \<Rightarrow> int" where
  "dw_byteOffset w = int (length w)"

definition writeUint8Array :: "DataWriter \<Rightarrow> byte list \<Rightarrow> DataWriter" where
  "writeUint8Array w bytes = w @ bytes"

definition getOutputData :: "DataWriter \<Rightarrow> byte list" where
  "getOutputData w = w"

record 'a Exporter =
  accessors :: "('a number, int) IAccessor list"
  bufferViews :: "int IBufferView list"
  meshes :: "IMesh list"
  nodes :: "'a INode list"
  dataWriter :: DataWriter
  nodesToConvertToRightHanded :: "handle set"
  originalState :: ExporterState
  convertToRightHandedState :: ExporterState
  nodeMap :: "handle \<rightharpoonup> int"
  materialMap :: "handle \<rightharpoonup> int"
  materialNeedsUVsSet :: "handle set"
  exportUnusedUVs :: bool

definition newExporter :: "bool \<Rightarrow> 'a Exporter" where
  "newExporter optExportUnusedUVs =
     \<lparr>accessors = [], bufferViews = [], meshes = [], nodes = [], dataWriter = [],
      nodesToConvertToRightHanded = {},
      originalState = newExporterState, convertToRightHandedState = newExporterState,
      nodeMap = Map.empty, materialMap = Map.empty, materialNeedsUVsSet = {},
      exportUnusedUVs = optExportUnusedUVs\<rparr>"

text \<open>
  \<^verbatim>\<open>
  private _shouldConvertToRightHanded(babylonNode: Node): boolean {
      return this._nodesToConvertToRightHanded.has(babylonNode);
  }
  private _getState(babylonNode: Node) {
      return this._shouldConvertToRightHanded(babylonNode)
          ? this._convertToRightHandedState : this._originalState;
  }
  \<close>
  \<open>_getState\<close> returns a reference to one of the two state objects; \<open>putState\<close> writes
  a changed state back to where \<open>getState\<close> read it.
\<close>

definition shouldConvertToRightHanded :: "'a Exporter \<Rightarrow> handle \<Rightarrow> bool" where
  "shouldConvertToRightHanded this babylonNode = (babylonNode \<in> nodesToConvertToRightHanded this)"

definition getState :: "'a Exporter \<Rightarrow> handle \<Rightarrow> ExporterState" where
  "getState this babylonNode =
     (if shouldConvertToRightHanded this babylonNode
      then convertToRightHandedState this else originalState this)"

definition putState :: "'a Exporter \<Rightarrow> handle \<Rightarrow> ExporterState \<Rightarrow> 'a Exporter" where
  "putState this babylonNode state =
     (if shouldConvertToRightHanded this babylonNode
      then this\<lparr>convertToRightHandedState := state\<rparr>
      else this\<lparr>originalState := state\<rparr>)"

subsection \<open>Geometry export\<close>

text \<open>
  \<^verbatim>\<open>
  private _exportIndicesData(indices, is32Bits, convertToRightHanded): number {
      const byteOffset = this._dataWriter.byteOffset;
      const bytes = indicesArrayToUint8Array(indices, is32Bits);
      // TODO: left-hand to right-hand conversion
      convertToRightHanded;
      this._dataWriter.writeUint8Array(bytes);
      this._bufferViews.push(createBufferView(0, byteOffset, bytes.length));
      return this._bufferViews.length - 1;
  }
  \<close>
\<close>

definition exportIndicesData ::
  "'a Exporter \<Rightarrow> IndicesArray \<Rightarrow> bool \<Rightarrow> bool \<Rightarrow> int \<times> 'a Exporter" where
  "exportIndicesData this indices is32Bits convertToRightHanded =
     (let byteOffset = dw_byteOffset (dataWriter this);
          bytes = indicesArrayToUint8Array indices is32Bits;
          this = this\<lparr>dataWriter := writeUint8Array (dataWriter this) bytes\<rparr>;
          this = this\<lparr>bufferViews := bufferViews this
                   @ [createBufferView (Finite 0) (Finite byteOffset)
                        (Finite (int (length bytes))) None None]\<rparr>
      in (int (length (bufferViews this)) - 1, this))"

text \<open>
  \<^verbatim>\<open>
  private _exportIndices(bufferViewIndex, is32Bits, start, count): number {
      const byteStride = is32Bits ? 4 : 2;
      const componentType = is32Bits ? AccessorComponentType.UNSIGNED_INT
                                     : AccessorComponentType.UNSIGNED_SHORT;
      const byteOffset = start * byteStride;
      this._accessors.push(createAccessor(bufferViewIndex, AccessorType.SCALAR,
          componentType, count, byteOffset, null, null));
      return this._accessors.length - 1;
  }
  \<close>
\<close>

definition exportIndices ::
  "'a Exporter \<Rightarrow> int \<Rightarrow> bool \<Rightarrow> int \<Rightarrow> int \<Rightarrow> int \<times> 'a Exporter" where
  "exportIndices this bufferViewIndex is32Bits start count =
     (let byteStride = (if is32Bits then 4 else 2);
          componentType = (if is32Bits then UNSIGNED_INT else UNSIGNED_SHORT);
          byteOffset = start * byteStride;
          this = this\<lparr>accessors := accessors this
                   @ [createAccessor (Finite bufferViewIndex) SCALAR componentType
                        (Finite count) (Some (Finite byteOffset)) None None]\<rparr>
      in (int (length (accessors this)) - 1, this))"

text \<open>
  \<^verbatim>\<open>
  private _exportBuffer(buffer, byteStride, convertToRightHanded): number {
      const data = buffer.getData();
      if (!data) { throw new Error("Buffer data is not available"); }
      const byteOffset = this._dataWriter.byteOffset;
      const bytes = dataArrayToUint8Array(data);
      this._dataWriter.writeUint8Array(bytes);
      this._bufferViews.push(createBufferView(0, byteOffset, bytes.length, byteStride));
      return this._bufferViews.length - 1;
  }
  \<close>
\<close>

definition exportBuffer ::
  "'a Exporter \<Rightarrow> Buffer \<Rightarrow> int \<Rightarrow> bool \<Rightarrow> error + int \<times> 'a Exporter" where
  "exportBuffer this buffer byteStride convertToRightHanded =
     (case buf_data buffer of
        None \<Rightarrow> Inl BufferDataNotAvailable
      | Some bytes \<Rightarrow>
          (let byteOffset = dw_byteOffset (dataWriter this);
               this = this\<lparr>dataWriter := writeUint8Array (dataWriter this) bytes\<rparr>;
               this = this\<lparr>bufferViews := bufferViews this
                        @ [createBufferView (Finite 0) (Finite byteOffset)
                             (Finite (int (length bytes))) (Some (Finite byteStride)) None]\<rparr>
           in Inr (int (length (bufferViews this)) - 1, this)))"

text \<open>
  \<^verbatim>\<open>
  private _exportVertexBuffer(vertexBuffer, start, count, bufferViewIndex): number {
      const kind = vertexBuffer.getKind();
      let min = null;
      let max = null;
      if (kind === VertexBuffer.PositionKind) {
          const positionsData = vertexBuffer.getFloatData();
          if (!positionsData) { throw new Error("Missing position data"); }
          [min, max] = calculateMinMaxPositions(positionsData, start, count);
      }
      const byteOffset = vertexBuffer.byteOffset + start * vertexBuffer.byteStride;
      this._accessors.push(createAccessor(bufferViewIndex, getAccessorType(kind),
          vertexBuffer.type, count, byteOffset, min, max));
      return this._accessors.length - 1;
  }
  \<close>
\<close>

definition exportVertexBuffer ::
  "VertexBufferKinds \<Rightarrow> 'a::linorder Exporter \<Rightarrow> 'a VertexBuffer \<Rightarrow> nat \<Rightarrow> nat \<Rightarrow> int
     \<Rightarrow> error + int \<times> 'a Exporter" where
  "exportVertexBuffer VertexBuffer this vertexBuffer start count bufferViewIndex =
     (let kind = vb_kind vertexBuffer
      in case (if kind = PositionKind VertexBuffer
               then (case vb_floatData vertexBuffer of
                       None \<Rightarrow> Inl MissingPositionData
                     | Some positionsData \<Rightarrow>
                         (let mm = calculateMinMaxPositions positionsData start count
                          in Inr (Some (fst mm), Some (snd mm))))
               else Inr (None, None)) of
           Inl e \<Rightarrow> Inl e
         | Inr (min', max') \<Rightarrow>
             (let byteOffset = vb_byteOffset vertexBuffer + int start * vb_byteStride vertexBuffer
              in case getAccessorType VertexBuffer kind of
                   Inl e \<Rightarrow> Inl e
                 | Inr accessorType \<Rightarrow>
                     (let this = this\<lparr>accessors := accessors this
                                   @ [createAccessor (Finite bufferViewIndex) accessorType
                                        (vb_type vertexBuffer) (Finite (int count))
                                        (Some (Finite byteOffset)) min' max']\<rparr>
                      in Inr (int (length (accessors this)) - 1, this))))"

subsection \<open>Material of a primitive\<close>

text \<open>
  The material exporter is an external collaborator: it turns a material into an index
  of the output document, or \<open>-1\<close> when it cannot, and may change the exporter on the
  way. Its two entry points, the attribute kinds and the fill modes come with the
  environment of an export.
  \<^verbatim>\<open>
  private async _exportMaterialAsync(babylonMaterial, hasUVs): Promise<number> {
      if (babylonMaterial instanceof PBRMaterial) {
          return await this._materialExporter.exportPBRMaterialAsync(babylonMaterial, ImageMimeType.PNG, hasUVs);
      } else if (babylonMaterial instanceof StandardMaterial) {
          return await this._materialExporter.exportStandardMaterialAsync(babylonMaterial, ImageMimeType.PNG, hasUVs);
      }
      Logger.Warn(...);
      return -1;
  }
  \<close>
\<close>

record 'a Environment =
  env_VertexBuffer :: VertexBufferKinds
  env_Material :: MaterialModes
  exportPBRMaterialAsync :: "'a Exporter \<Rightarrow> Material \<Rightarrow> bool \<Rightarrow> error + int \<times> 'a Exporter"
  exportStandardMaterialAsync :: "'a Exporter \<Rightarrow> Material \<Rightarrow> bool \<Rightarrow> error + int \<times> 'a Exporter"

definition exportMaterialAsync ::
  "'a Environment \<Rightarrow> 'a Exporter \<Rightarrow> Material \<Rightarrow> bool \<Rightarrow> error + int \<times> 'a Exporter" where
  "exportMaterialAsync env this babylonMaterial hasUVs =
     (case mat_class babylonMaterial of
        PBRMaterialClass \<Rightarrow> exportPBRMaterialAsync env this babylonMaterial hasUVs
      | StandardMaterialClass \<Rightarrow> exportStandardMaterialAsync env this babylonMaterial hasUVs
      | MultiMaterialClass \<Rightarrow> Inr (- 1, this)
      | OtherMaterialClass \<Rightarrow> Inr (- 1, this))"

definition startsWith :: "string \<Rightarrow> string \<Rightarrow> bool" where
  "startsWith s prefix = (take (length prefix) s = prefix)"

definition subMaterialAt :: "Material \<Rightarrow> nat \<Rightarrow> Material option" where
  "subMaterialAt babylonMaterial i =
     (if i < length (mat_subMaterials babylonMaterial)
      then mat_subMaterials babylonMaterial ! i else None)"

text \<open>
  \<^verbatim>\<open>
  if (babylonMaterial) {
      let materialIndex = this._materialMap.get(babylonMaterial) ?? -1;
      if (materialIndex === -1) {
          const hasUVs = vertexBuffers && Object.keys(vertexBuffers).some((kind) => kind.startsWith("uv"));
          if (babylonMaterial instanceof MultiMaterial) {
              const subMaterial = babylonMaterial.subMaterials[subMesh.materialIndex];
              if (subMaterial) { materialIndex = await this._exportMaterialAsync(subMaterial, hasUVs); }
          } else {
              materialIndex = await this._exportMaterialAsync(babylonMaterial, hasUVs);
          }
      }
      if (materialIndex !== -1) {
          this._materialMap.set(babylonMaterial, materialIndex);
          primitive.material = materialIndex;
      }
  }
  \<close>
\<close>

definition exportPrimitiveMaterial ::
  "'a Environment \<Rightarrow> 'a Exporter \<Rightarrow> (string \<times> 'a VertexBuffer) list \<Rightarrow> SubMesh
     \<Rightarrow> IMeshPrimitive \<Rightarrow> error + IMeshPrimitive \<times> 'a Exporter" where
  "exportPrimitiveMaterial env this vertexBuffers subMesh primitive =
     (case sm_material subMesh of
        None \<Rightarrow> Inr (primitive, this)
      | Some babylonMaterial \<Rightarrow>
          (let materialIndex = (case materialMap this (mat_id babylonMaterial) of
                                  Some i \<Rightarrow> i | None \<Rightarrow> - 1)
           in case (if materialIndex = - 1
                    then (let hasUVs = list_ex (\<lambda>kind. startsWith kind ''uv'')
                                          (map fst vertexBuffers)
                          in if mat_class babylonMaterial = MultiMaterialClass
                             then (case subMaterialAt babylonMaterial (sm_materialIndex subMesh) of
                                     Some subMaterial \<Rightarrow>
                                       exportMaterialAsync env this subMaterial hasUVs
                                   | None \<Rightarrow> Inr (materialIndex, this))
                             else exportMaterialAsync env this babylonMaterial hasUVs)
                    else Inr (materialIndex, this)) of
                Inl e \<Rightarrow> Inl e
              | Inr (materialIndex, this) \<Rightarrow>
                  if materialIndex \<noteq> - 1
                  then Inr (primitive\<lparr>prim_material := Some materialIndex\<rparr>,
                            this\<lparr>materialMap :=
                              (materialMap this)(mat_id babylonMaterial \<mapsto> materialIndex)\<rparr>)
                  else Inr (primitive, this)))"

text \<open>
  \<^verbatim>\<open>
  const mode = getPrimitiveMode(babylonMesh.overrideRenderingFillMode
      ?? babylonMaterial?.fillMode ?? Material.TriangleFillMode);
  if (mode !== MeshPrimitiveMode.TRIANGLES) { primitive.mode = mode; }
  \<close>
\<close>

definition exportPrimitiveMode ::
  "'a Environment \<Rightarrow> 'a Mesh \<Rightarrow> SubMesh \<Rightarrow> IMeshPrimitive \<Rightarrow> error + IMeshPrimitive" where
  "exportPrimitiveMode env babylonMesh subMesh primitive =
     (let fillMode = (case overrideRenderingFillMode babylonMesh of
                        Some m \<Rightarrow> m
                      | None \<Rightarrow>
                          (case sm_material subMesh of
                             Some babylonMaterial \<Rightarrow> mat_fillMode babylonMaterial
                           | None \<Rightarrow> TriangleFillMode (env_Material env)))
      in case getPrimitiveMode (env_Material env) fillMode of
           Inl e \<Rightarrow> Inl e
         | Inr mode \<Rightarrow>
             Inr (if mode \<noteq> TRIANGLES then primitive\<lparr>prim_mode := Some mode\<rparr>
                  else primitive))"

subsection \<open>Indices and attributes of a primitive\<close>

text \<open>
  \<^verbatim>\<open>
  if (indices) {
      const is32Bits = isIndicesArray32Bits(indices);
      const bufferViewIndex = state.getIndicesBufferView(indices)
          ?? this._exportIndicesData(indices, is32Bits, convertToRightHanded);
      state.setIndicesBufferView(indices, bufferViewIndex);
      const accessorIndex =
          state.getIndicesAccessor(indices, subMesh.indexStart, subMesh.indexCount) ??
          this._exportIndices(bufferViewIndex, is32Bits, subMesh.indexStart, subMesh.indexCount);
      state.setIndicesAccessor(indices, subMesh.indexStart, subMesh.indexCount, accessorIndex);
      primitive.indices = accessorIndex;
  }
  \<close>
  \<open>state\<close> is \<open>this._getState(babylonMesh)\<close>, read and written through the mesh.
\<close>

definition exportPrimitiveIndices ::
  "'a Exporter \<Rightarrow> 'a Mesh \<Rightarrow> IndicesArray \<Rightarrow> SubMesh \<Rightarrow> IMeshPrimitive
     \<Rightarrow> IMeshPrimitive \<times> 'a Exporter" where
  "exportPrimitiveIndices this babylonMesh indices subMesh primitive =
     (let convertToRightHanded = shouldConvertToRightHanded this (mesh_id babylonMesh);
          is32Bits = isIndicesArray32Bits indices;
          r = (case getIndicesBufferView (getState this (mesh_id babylonMesh)) (ia_id indices) of
                 Some cached \<Rightarrow> (cached, this)
               | None \<Rightarrow> exportIndicesData this indices is32Bits convertToRightHanded);
          bufferViewIndex = fst r;
          this = snd r;
          this = putState this (mesh_id babylonMesh)
                   (setIndicesBufferView (getState this (mesh_id babylonMesh))
                      (ia_id indices) bufferViewIndex);
          r = (case getIndicesAccessor (getState this (mesh_id babylonMesh)) (ia_id indices)
                      (indexStart subMesh) (indexCount subMesh) of
                 Some cached \<Rightarrow> (cached, this)
               | None \<Rightarrow> exportIndices this bufferViewIndex is32Bits
                           (indexStart subMesh) (indexCount subMesh));
          accessorIndex = fst r;
          this = snd r;
          this = putState this (mesh_id babylonMesh)
                   (setIndicesAccessor (getState this (mesh_id babylonMesh)) (ia_id indices)
                      (indexStart subMesh) (indexCount subMesh) accessorIndex)
      in (primitive\<lparr>prim_indices := Some accessorIndex\<rparr>, this))"

text \<open>
  \<^verbatim>\<open>
  const vertexBuffer = vertexBuffers[kind];
  const buffer = vertexBuffer._buffer;
  const bufferViewIndex = state.getAttributeBufferView(buffer)
      ?? this._exportBuffer(buffer, vertexBuffer.byteStride, convertToRightHanded);
  state.setAttributeBufferView(buffer, bufferViewIndex);
  const accessorIndex =
      state.getAttributeAccessor(vertexBuffer, subMesh.verticesStart, subMesh.verticesCount) ??
      this._exportVertexBuffer(vertexBuffer, subMesh.verticesStart, subMesh.verticesCount, bufferViewIndex);
  state.setAttributeAccessor(vertexBuffer, subMesh.verticesStart, subMesh.verticesCount, accessorIndex);
  primitive.attributes[getAttributeType(kind)] = accessorIndex;
  \<close>
\<close>

definition exportPrimitiveAttribute ::
  "'a::linorder Environment \<Rightarrow> 'a Exporter \<Rightarrow> 'a Mesh \<Rightarrow> SubMesh \<Rightarrow> string \<Rightarrow> 'a VertexBuffer
     \<Rightarrow> IMeshPrimitive \<Rightarrow> error + IMeshPrimitive \<times> 'a Exporter" where
  "exportPrimitiveAttribute env this babylonMesh subMesh kind vertexBuffer primitive =
     (let convertToRightHanded = shouldConvertToRightHanded this (mesh_id babylonMesh);
          buffer = vb_buffer vertexBuffer
      in case (case getAttributeBufferView (getState this (mesh_id babylonMesh)) (buf_id buffer) of
                 Some cached \<Rightarrow> Inr (cached, this)
               | None \<Rightarrow> exportBuffer this buffer (vb_byteStride vertexBuffer)
                           convertToRightHanded) of
           Inl e \<Rightarrow> Inl e
         | Inr (bufferViewIndex, this) \<Rightarrow>
             (let this = putState this (mesh_id babylonMesh)
                           (setAttributeBufferView (getState this (mesh_id babylonMesh))
                              (buf_id buffer) bufferViewIndex)
              in case (case getAttributeAccessor (getState this (mesh_id babylonMesh))
                              (vb_id vertexBuffer) (int (verticesStart subMesh))
                              (int (verticesCount subMesh)) of
                         Some cached \<Rightarrow> Inr (cached, this)
                       | None \<Rightarrow> exportVertexBuffer (env_VertexBuffer env) this vertexBuffer
                                   (verticesStart subMesh) (verticesCount subMesh)
                                   bufferViewIndex) of
                   Inl e \<Rightarrow> Inl e
                 | Inr (accessorIndex, this) \<Rightarrow>
                     (let this = putState this (mesh_id babylonMesh)
                                   (setAttributeAccessor (getState this (mesh_id babylonMesh))
                                      (vb_id vertexBuffer) (int (verticesStart subMesh))
                                      (int (verticesCount subMesh)) accessorIndex)
                      in case getAttributeType (env_VertexBuffer env) kind of
                           Inl e \<Rightarrow> Inl e
                         | Inr attributeType \<Rightarrow>
                             Inr (primitive\<lparr>prim_attributes :=
                                    (prim_attributes primitive)(attributeType \<mapsto> accessorIndex)\<rparr>,
                                  this))))"

text \<open>
  \<^verbatim>\<open>
  for (const kind of Object.keys(vertexBuffers)) {
      if (kind.startsWith("uv") && !this._options.exportUnusedUVs) {
          if (!babylonMaterial || !this._materialNeedsUVsSet.has(babylonMaterial)) {
              continue;
          }
      }
      ...
  }
  \<close>
\<close>

fun exportPrimitiveAttributes ::
  "'a::linorder Environment \<Rightarrow> 'a Exporter \<Rightarrow> 'a Mesh \<Rightarrow> SubMesh
     \<Rightarrow> (string \<times> 'a VertexBuffer) list \<Rightarrow> IMeshPrimitive
     \<Rightarrow> error + IMeshPrimitive \<times> 'a Exporter" where
  "exportPrimitiveAttributes env this babylonMesh subMesh [] primitive = Inr (primitive, this)"
| "exportPrimitiveAttributes env this babylonMesh subMesh ((kind, vertexBuffer) # rest) primitive =
     (if startsWith kind ''uv'' \<and> \<not> exportUnusedUVs this
         \<and> (case sm_material subMesh of
               None \<Rightarrow> True
             | Some babylonMaterial \<Rightarrow> mat_id babylonMaterial \<notin> materialNeedsUVsSet this)
      then exportPrimitiveAttributes env this babylonMesh subMesh rest primitive
      else (case exportPrimitiveAttribute env this babylonMesh subMesh kind vertexBuffer
                   primitive of
              Inl e \<Rightarrow> Inl e
            | Inr (primitive, this) \<Rightarrow>
                exportPrimitiveAttributes env this babylonMesh subMesh rest primitive))"

subsection \<open>Meshes\<close>

text \<open>
  The body of the loop over the sub meshes of \<open>_exportMeshAsync\<close>: one primitive, with
  its material, its mode, its indices and its attributes, in this order.
\<close>

definition exportPrimitive ::
  "'a::linorder Environment \<Rightarrow> 'a Exporter \<Rightarrow> 'a Mesh \<Rightarrow> IndicesArray option
     \<Rightarrow> (string \<times> 'a VertexBuffer) list \<Rightarrow> SubMesh \<Rightarrow> error + IMeshPrimitive \<times> 'a Exporter"
  where
  "exportPrimitive env this babylonMesh indices vertexBuffers subMesh =
     (let primitive = \<lparr>prim_attributes = Map.empty, prim_indices = None,
                         prim_material = None, prim_mode = None\<rparr>
      in case exportPrimitiveMaterial env this vertexBuffers subMesh primitive of
           Inl e \<Rightarrow> Inl e
         | Inr (primitive, this) \<Rightarrow>
             (case exportPrimitiveMode env babylonMesh subMesh primitive of
                Inl e \<Rightarrow> Inl e
              | Inr primitive \<Rightarrow>
                  (let r = (case indices of
                              Some ia \<Rightarrow> exportPrimitiveIndices this babylonMesh ia subMesh
                                          primitive
                            | None \<Rightarrow> (primitive, this))
                   in exportPrimitiveAttributes env (snd r) babylonMesh subMesh vertexBuffers
                        (fst r))))"

fun exportPrimitives ::
  "'a::linorder Environment \<Rightarrow> 'a Exporter \<Rightarrow> 'a Mesh \<Rightarrow> IndicesArray option
     \<Rightarrow> (string \<times> 'a VertexBuffer) list \<Rightarrow> SubMesh list \<Rightarrow> IMesh
     \<Rightarrow> error + IMesh \<times> 'a Exporter" where
  "exportPrimitives env this babylonMesh indices vertexBuffers [] mesh = Inr (mesh, this)"
| "exportPrimitives env this babylonMesh indices vertexBuffers (subMesh # rest) mesh =
     (case exportPrimitive env this babylonMesh indices vertexBuffers subMesh of
        Inl e \<Rightarrow> Inl e
      | Inr (primitive, this) \<Rightarrow>
          exportPrimitives env this babylonMesh indices vertexBuffers rest
            (mesh\<lparr>primitives := primitives mesh @ [primitive]\<rparr>))"

text \<open>
  \<^verbatim>\<open>
  private async _exportMeshAsync(babylonMesh: Mesh): Promise<number> {
      const state = this._getState(babylonMesh);
      const convertToRightHanded = this._shouldConvertToRightHanded(babylonMesh);
      const mesh: IMesh = { primitives: [] };
      const indices = babylonMesh.isUnIndexed ? null : babylonMesh.getIndices();
      const vertexBuffers = babylonMesh.geometry?.getVertexBuffers();
      const subMeshes = babylonMesh.subMeshes;
      if (vertexBuffers && subMeshes && subMeshes.length > 0) {
          for (let subMeshIndex = 0; subMeshIndex < subMeshes.length; ++subMeshIndex) { ... }
      }
      this._meshes.push(mesh);
      return this._meshes.length - 1;
  }
  \<close>
\<close>

definition exportMeshAsync ::
  "'a::linorder Environment \<Rightarrow> 'a Exporter \<Rightarrow> 'a Mesh \<Rightarrow> error + int \<times> 'a Exporter" where
  "exportMeshAsync env this babylonMesh =
     (let mesh = \<lparr>primitives = []\<rparr>;
          indices = (if isUnIndexed babylonMesh then None else mesh_indices babylonMesh)
      in case (case mesh_vertexBuffers babylonMesh of
                 Some vertexBuffers \<Rightarrow>
                   exportPrimitives env this babylonMesh indices vertexBuffers
                     (subMeshes babylonMesh) mesh
               | None \<Rightarrow> Inr (mesh, this)) of
           Inl e \<Rightarrow> Inl e
         | Inr (mesh, this) \<Rightarrow>
             (let this = this\<lparr>meshes := meshes this @ [mesh]\<rparr>
              in Inr (int (length (meshes this)) - 1, this)))"

subsection \<open>Scene nodes\<close>

text \<open>
  A node of the source scene. \<open>Mesh\<close> and \<open>InstancedMesh\<close> are transform nodes
  (\<open>instanceof TransformNode\<close> holds for them); lights and cameras are not. A mesh node
  carries itself as a mesh, so its \<open>mesh_id\<close> is its \<open>bn_id\<close>; an instance carries its
  \<open>sourceMesh\<close>. The world matrix has a type of its own, \<open>'m\<close>.
\<close>

datatype 'a NodeClass =
  TransformNodeClass
| MeshClass "'a Mesh"
| InstancedMeshClass "'a Mesh"
| LightClass
| CameraClass

record ('a, 'm) Node =
  bn_id :: handle
  bn_name :: string
  bn_parent :: "handle option"
  bn_class :: "'a NodeClass"
  bn_worldMatrix :: 'm

definition instanceofTransformNode :: "('a, 'm) Node \<Rightarrow> bool" where
  "instanceofTransformNode node =
     (case bn_class node of
        TransformNodeClass \<Rightarrow> True
      | MeshClass m \<Rightarrow> True
      | InstancedMeshClass m \<Rightarrow> True
      | LightClass \<Rightarrow> False
      | CameraClass \<Rightarrow> False)"

text \<open>
  \<^verbatim>\<open>
  private async _exportNodeAsync(babylonNode: Node): Promise<number> {
      const state = this._getState(babylonNode);
      const node: INode = {};
      if (babylonNode.name) { node.name = babylonNode.name; }
      if (babylonNode instanceof TransformNode) {
          this._setNodeTransformation(node, babylonNode);
          if (babylonNode instanceof Mesh || babylonNode instanceof InstancedMesh) {
              const babylonMesh = babylonNode instanceof Mesh ? babylonNode : babylonNode.sourceMesh;
              const meshIndex = state.getMesh(babylonMesh) || await this._exportMeshAsync(babylonMesh);
              state.setMesh(babylonMesh, meshIndex);
              node.mesh = meshIndex;
          } else if (babylonNode instanceof Camera) {
              // TODO: handle camera
          } else {
              // TODO: handle other Babylon node types
          }
      }
      this._nodes.push(node);
      return this._nodes.length - 1;
  }
  \<close>
  \<open>a || b\<close> is \<open>a\<close> when \<open>a\<close> is truthy and \<open>b\<close> otherwise: a cached index that is 0
  is falsy, like \<open>undefined\<close>. \<open>_setNodeTransformation\<close> fills the translation, scale
  and rotation of the output node from the transform of the source node with the
  vector and quaternion operations of the math library; it is a parameter here.
\<close>

definition exportNodeAsync ::
  "('a Exporter \<Rightarrow> 'a INode \<Rightarrow> ('a, 'm) Node \<Rightarrow> 'a INode) \<Rightarrow> 'a::linorder Environment
     \<Rightarrow> 'a Exporter \<Rightarrow> ('a, 'm) Node \<Rightarrow> error + int \<times> 'a Exporter" where
  "exportNodeAsync setNodeTransformation env this babylonNode =
     (let node = \<lparr>node_name = None, node_translation = None, node_scale = None,
                    node_rotation = None, node_mesh = None, node_children = None\<rparr>;
          node = (if truthy_string (bn_name babylonNode)
                  then node\<lparr>node_name := Some (bn_name babylonNode)\<rparr> else node)
      in case (if instanceofTransformNode babylonNode
               then (let node = setNodeTransformation this node babylonNode
                     in case (case bn_class babylonNode of
                                MeshClass m \<Rightarrow> Some m
                              | InstancedMeshClass sourceMesh \<Rightarrow> Some sourceMesh
                              | TransformNodeClass \<Rightarrow> None
                              | LightClass \<Rightarrow> None
                              | CameraClass \<Rightarrow> None) of
                          None \<Rightarrow> Inr (node, this)
                        | Some babylonMesh \<Rightarrow>
                            (case (case getMesh (getState this (bn_id babylonNode))
                                          (mesh_id babylonMesh) of
                                     Some cached \<Rightarrow>
                                       if cached \<noteq> 0 then Inr (cached, this)
                                       else exportMeshAsync env this babylonMesh
                                   | None \<Rightarrow> exportMeshAsync env this babylonMesh) of
                               Inl e \<Rightarrow> Inl e
                             | Inr (meshIndex, this) \<Rightarrow>
                                 Inr (node\<lparr>node_mesh := Some meshIndex\<rparr>,
                                      putState this (bn_id babylonNode)
                                        (setMesh (getState this (bn_id babylonNode))
                                           (mesh_id babylonMesh) meshIndex))))
               else Inr (node, this)) of
           Inl e \<Rightarrow> Inl e
         | Inr (node, this) \<Rightarrow>
             (let this = this\<lparr>nodes := nodes this @ [node]\<rparr>
              in Inr (int (length (nodes this)) - 1, this)))"

text \<open>
  \<^verbatim>\<open>
  for (const babylonNode of babylonNodes) {
      const nodeIndex = this._nodeMap.get(babylonNode) || await this._exportNodeAsync(babylonNode);
      this._nodeMap.set(babylonNode, nodeIndex);
  }
  \<close>
\<close>

fun exportNodesAsync ::
  "('a Exporter \<Rightarrow> 'a INode \<Rightarrow> ('a, 'm) Node \<Rightarrow> 'a INode) \<Rightarrow> 'a::linorder Environment
     \<Rightarrow> 'a Exporter \<Rightarrow> ('a, 'm) Node list \<Rightarrow> error + 'a Exporter" where
  "exportNodesAsync setNodeTransformation env this [] = Inr this"
| "exportNodesAsync setNodeTransformation env this (babylonNode # babylonNodes) =
     (case (case nodeMap this (bn_id babylonNode) of
              Some cached \<Rightarrow>
                if cached \<noteq> 0 then Inr (cached, this)
                else exportNodeAsync setNodeTransformation env this babylonNode
            | None \<Rightarrow> exportNodeAsync setNodeTransformation env this babylonNode) of
        Inl e \<Rightarrow> Inl e
      | Inr (nodeIndex, this) \<Rightarrow>
          exportNodesAsync setNodeTransformation env
            (this\<lparr>nodeMap := (nodeMap this)(bn_id babylonNode \<mapsto> nodeIndex)\<rparr>)
            babylonNodes)"

section \<open>glTF 2.0 exporter: scene walk\<close>

text \<open>
  The matrix operations belong to the math library: \<open>isIdentity\<close>, \<open>multiplyToRef\<close>
  (the product, written to a scratch matrix and returned) and the constant
  \<open>convertHandednessMatrix = Matrix.Compose((-1, 1, 1), identity, zero)\<close>.
\<close>

record 'm MatrixOps =
  isIdentity :: "'m \<Rightarrow> bool"
  multiplyToRef :: "'m \<Rightarrow> 'm \<Rightarrow> 'm"
  convertHandednessMatrix :: 'm

text \<open>
  \<^verbatim>\<open>
  function isNoopNode(node: Node, useRightHandedSystem: boolean): boolean {
      if (!(node instanceof TransformNode)) { return false; }
      if (useRightHandedSystem) {
          const matrix = node.getWorldMatrix();
          if (!matrix.isIdentity()) { return false; }
      } else {
          const matrix = node.getWorldMatrix().multiplyToRef(convertHandednessMatrix, TmpVectors.Matrix[0]);
          if (!matrix.isIdentity()) { return false; }
      }
      if ((node instanceof Mesh && node.geometry) ||
          (node instanceof InstancedMesh && node.sourceMesh.geometry)) { return false; }
      return true;
  }
  \<close>
\<close>

definition isNoopNode :: "'m MatrixOps \<Rightarrow> ('a, 'm) Node \<Rightarrow> bool \<Rightarrow> bool" where
  "isNoopNode Matrix node useRightHandedSystem =
     (if \<not> instanceofTransformNode node then False
      else if (if useRightHandedSystem
               then \<not> isIdentity Matrix (bn_worldMatrix node)
               else \<not> isIdentity Matrix
                        (multiplyToRef Matrix (bn_worldMatrix node)
                           (convertHandednessMatrix Matrix)))
      then False
      else if (case bn_class node of
                 MeshClass m \<Rightarrow> mesh_hasGeometry m
               | InstancedMeshClass sourceMesh \<Rightarrow> mesh_hasGeometry sourceMesh
               | TransformNodeClass \<Rightarrow> False
               | LightClass \<Rightarrow> False
               | CameraClass \<Rightarrow> False)
      then False
      else True)"

text \<open>
  \<open>Array.prototype.indexOf\<close> compares by identity and answers \<open>-1\<close> when the element
  is not in the array. \<open>splice(start, 1)\<close> counts a negative \<open>start\<close> from the end of
  the array and removes one element there, if there is one.
\<close>

fun indexOf :: "handle list \<Rightarrow> handle \<Rightarrow> int" where
  "indexOf [] x = - 1"
| "indexOf (y # ys) x =
     (if y = x then 0
      else (let r = indexOf ys x in if r < 0 then - 1 else r + 1))"

definition splice1 :: "'x list \<Rightarrow> int \<Rightarrow> 'x list" where
  "splice1 xs start =
     (let len = int (length xs);
          actualStart = (if start < 0 then max (len + start) 0 else min start len)
      in take (nat actualStart) xs @ drop (nat actualStart + 1) xs)"

record ('a, 'm) Scene =
  scene_transformNodes :: "('a, 'm) Node list"
  scene_meshes :: "('a, 'm) Node list"
  scene_lights :: "('a, 'm) Node list"
  scene_cameras :: "('a, 'm) Node list"
  scene_rootNodes :: "('a, 'm) Node list"
  useRightHandedSystem :: bool
  getDescendants :: "handle \<Rightarrow> handle list"

record ('a, 'm) ExportOptions =
  shouldExportNode :: "(('a, 'm) Node \<Rightarrow> bool) option"
  removeNoopRootNodes :: "bool option"
  includeCoordinateSystemConversionNodes :: "bool option"

text \<open>
  The walk keeps the list of nodes to export, the set of nodes to convert to a
  right-handed system and the set of removed root nodes.
  \<^verbatim>\<open>
  if (isNoopNode(rootNode, this._babylonScene.useRightHandedSystem)) {
      removedRootNodes.add(rootNode);
      // Exclude the node from list of nodes to export
      nodes.splice(nodes.indexOf(rootNode), 1);
      if (!this._babylonScene.useRightHandedSystem) {
          // Cancel conversion to right handed system
          this._nodesToConvertToRightHanded.delete(rootNode);
          rootNode.getDescendants().forEach((descendant) => {
              this._nodesToConvertToRightHanded.delete(descendant);
          });
      }
  }
  \<close>
\<close>

record ('a, 'm) Walk =
  walk_nodes :: "('a, 'm) Node list"
  walk_nodesToConvertToRightHanded :: "handle set"
  walk_removedRootNodes :: "handle set"

definition removeNoopRootNode ::
  "'m MatrixOps \<Rightarrow> ('a, 'm) Scene \<Rightarrow> ('a, 'm) Walk \<Rightarrow> ('a, 'm) Node \<Rightarrow> ('a, 'm) Walk" where
  "removeNoopRootNode Matrix babylonScene walk rootNode =
     (if isNoopNode Matrix rootNode (useRightHandedSystem babylonScene)
      then (let walk = walk\<lparr>walk_removedRootNodes :=
                               insert (bn_id rootNode) (walk_removedRootNodes walk)\<rparr>;
                walk = walk\<lparr>walk_nodes :=
                               splice1 (walk_nodes walk)
                                 (indexOf (map bn_id (walk_nodes walk)) (bn_id rootNode))\<rparr>
            in if \<not> useRightHandedSystem babylonScene
               then walk\<lparr>walk_nodesToConvertToRightHanded :=
                           (walk_nodesToConvertToRightHanded walk - {bn_id rootNode})
                             - set (getDescendants babylonScene (bn_id rootNode))\<rparr>
               else walk)
      else walk)"

text \<open>
  The first part of \<open>_exportSceneAsync\<close>, up to the export of the nodes.
  \<^verbatim>\<open>
  const shouldExportNode = this._options.shouldExportNode || (() => true);
  const transformNodes = this._babylonScene.transformNodes.filter(shouldExportNode);
  const meshes = this._babylonScene.meshes.filter(shouldExportNode);
  const lights = this._babylonScene.lights.filter(shouldExportNode);
  const cameras = this._babylonScene.cameras.filter(shouldExportNode);
  const nodes: Node[] = [...transformNodes, ...meshes, ...lights, ...cameras];
  const removedRootNodes = new Set<Node>();
  if (!this._babylonScene.useRightHandedSystem) {
      for (const node of nodes) { this._nodesToConvertToRightHanded.add(node); }
  }
  if ((this._options.removeNoopRootNodes ?? true) && !this._options.includeCoordinateSystemConversionNodes) {
      for (const rootNode of this._babylonScene.rootNodes) { ... }
  }
  \<close>
\<close>

definition selectNodes ::
  "'m MatrixOps \<Rightarrow> ('a, 'm) ExportOptions \<Rightarrow> ('a, 'm) Scene \<Rightarrow> ('a, 'm) Walk" where
  "selectNodes Matrix options babylonScene =
     (let shouldExport = (case shouldExportNode options of
                            Some f \<Rightarrow> f | None \<Rightarrow> (\<lambda>node. True));
          transformNodes = filter shouldExport (scene_transformNodes babylonScene);
          meshes' = filter shouldExport (scene_meshes babylonScene);
          lights = filter shouldExport (scene_lights babylonScene);
          cameras = filter shouldExport (scene_cameras babylonScene);
          nodes' = transformNodes @ meshes' @ lights @ cameras;
          walk = \<lparr>walk_nodes = nodes',
                  walk_nodesToConvertToRightHanded =
                    (if \<not> useRightHandedSystem babylonScene then set (map bn_id nodes') else {}),
                  walk_removedRootNodes = {}\<rparr>
      in if (case removeNoopRootNodes options of Some b \<Rightarrow> b | None \<Rightarrow> True)
            \<and> \<not> (case includeCoordinateSystemConversionNodes options of
                     Some b \<Rightarrow> b | None \<Rightarrow> False)
         then foldl (removeNoopRootNode Matrix babylonScene) walk (scene_rootNodes babylonScene)
         else walk)"

section \<open>glTF 2.0 exporter: extension hooks\<close>

text \<open>
  A hook is called with an extension and the artifact carried so far (which may be
  \<open>null\<close>). It returns \<open>undefined\<close> when the extension does not implement the hook
  (\<open>NoPromise\<close>), or a promise. The exporter awaits each promise before it goes on, so
  a promise is modelled by its outcome: the value it resolves to, or the error it
  rejects with.
\<close>

datatype 'a hookResult = NoPromise | Resolved "'a option" | Rejected error

text \<open>
  \<^verbatim>\<open>
  private _applyExtension<T>(node, extensions, index, actionAsync): Promise<Nullable<T>> {
      if (index >= extensions.length) { return Promise.resolve(node); }
      const currentPromise = actionAsync(extensions[index], node);
      if (!currentPromise) {
          return this._applyExtension(node, extensions, index + 1, actionAsync);
      }
      return currentPromise.then((newNode) =>
          this._applyExtension(newNode, extensions, index + 1, actionAsync));
  }
  \<close>
\<close>

function applyExtension ::
  "'a option \<Rightarrow> 'e list \<Rightarrow> nat \<Rightarrow> ('e \<Rightarrow> 'a option \<Rightarrow> 'a hookResult) \<Rightarrow> error + 'a option"
  where
  "applyExtension node extensions index actionAsync =
     (if index \<ge> length extensions then Inr node
      else (case actionAsync (extensions ! index) node of
              NoPromise \<Rightarrow> applyExtension node extensions (index + 1) actionAsync
            | Resolved newNode \<Rightarrow> applyExtension newNode extensions (index + 1) actionAsync
            | Rejected e \<Rightarrow> Inl e))"
  by pat_completeness auto
termination
  by (relation "measure (\<lambda>(node, extensions, index, actionAsync). length extensions - index)")
     auto

text \<open>
  \<^verbatim>\<open>
  private _applyExtensions<T>(node, actionAsync): Promise<Nullable<T>> {
      const extensions: IGLTFExporterExtensionV2[] = [];
      for (const name of GLTFExporter._ExtensionNames) {
          extensions.push(this._extensions[name]);
      }
      return this._applyExtension(node, extensions, 0, actionAsync);
  }
  \<close>
  \<open>_ExtensionNames\<close> is the registration order. The instance table
  \<open>this._extensions\<close> is a map; a name without an instance puts \<open>undefined\<close> into
  the list, and the hook receives it as such.
\<close>

definition applyExtensions ::
  "string list \<Rightarrow> (string \<rightharpoonup> 'e) \<Rightarrow> 'a option
     \<Rightarrow> ('e option \<Rightarrow> 'a option \<Rightarrow> 'a hookResult) \<Rightarrow> error + 'a option" where
  "applyExtensions ExtensionNames extensions node actionAsync =
     applyExtension node (map extensions ExtensionNames) 0 actionAsync"

text \<open>
  The pipeline as the specification words it: an ordered fold over the extension list,
  each step either replacing the carried artifact or leaving it unchanged. A rejected
  promise ends the chain with its error.
\<close>

definition hookStep ::
  "('e \<Rightarrow> 'a option \<Rightarrow> 'a hookResult) \<Rightarrow> error + 'a option \<Rightarrow> 'e \<Rightarrow> error + 'a option" where
  "hookStep actionAsync carried extension =
     (case carried of
        Inl e \<Rightarrow> Inl e
      | Inr node \<Rightarrow>
          (case actionAsync extension node of
             NoPromise \<Rightarrow> Inr node
           | Resolved newNode \<Rightarrow> Inr newNode
           | Rejected e \<Rightarrow> Inl e))"

definition hookFold ::
  "('e \<Rightarrow> 'a option \<Rightarrow> 'a hookResult) \<Rightarrow> 'a option \<Rightarrow> 'e list \<Rightarrow> error + 'a option" where
  "hookFold actionAsync node extensions = foldl (hookStep actionAsync) (Inr node) extensions"

section \<open>Notions used in the statements\<close>

text \<open>A JSON text for examples, as its UTF-16 code units.\<close>

definition exampleJson :: jsString where
  \<open>exampleJson = map of_char ''{"asset":{"version":"2.0"}}''\<close>


text \<open>
  The values of component \<open>j\<close> of the vertices \<open>a, \<dots>, b - 1\<close> in a tightly-packed run
  of 3-component tuples.
\<close>

definition component :: "'a list \<Rightarrow> nat \<Rightarrow> nat \<Rightarrow> nat \<Rightarrow> 'a set" where
  "component ps a b j = (\<lambda>i. ps ! (3 * i + j)) ` {a ..< b}"

definition lowerBound :: "'a::linorder list \<Rightarrow> nat \<Rightarrow> nat \<Rightarrow> nat \<Rightarrow> 'a number" where
  "lowerBound ps a b j = (if b = a then Infinity else Finite (Min (component ps a b j)))"

definition upperBound :: "'a::linorder list \<Rightarrow> nat \<Rightarrow> nat \<Rightarrow> nat \<Rightarrow> 'a number" where
  "upperBound ps a b j = (if b = a then NegInfinity else Finite (Max (component ps a b j)))"

definition bounds :: "'a::linorder list \<Rightarrow> nat \<Rightarrow> nat \<Rightarrow> 'a number list \<times> 'a number list" where
  "bounds ps a b = ([lowerBound ps a b 0, lowerBound ps a b 1, lowerBound ps a b 2],
                    [upperBound ps a b 0, upperBound ps a b 1, upperBound ps a b 2])"

text \<open>One comparison of the scan, on a finite value.\<close>

definition lowerWith :: "'a::linorder number \<Rightarrow> 'a \<Rightarrow> 'a number" where
  "lowerWith m x = (if num_less (Finite x) m then Finite x else m)"

definition upperWith :: "'a::linorder number \<Rightarrow> 'a \<Rightarrow> 'a number" where
  "upperWith m x = (if num_less m (Finite x) then Finite x else m)"


subsection \<open>Example scenes\<close>

text \<open>
  The attribute kinds and fill modes with the values the core library gives them.
\<close>

definition babylonKinds :: VertexBufferKinds where
  "babylonKinds =
     \<lparr>PositionKind = ''position'', NormalKind = ''normal'', TangentKind = ''tangent'',
      ColorKind = ''color'', UVKind = ''uv'', UV2Kind = ''uv2'', UV3Kind = ''uv3'',
      UV4Kind = ''uv4'', UV5Kind = ''uv5'', UV6Kind = ''uv6'',
      MatricesIndicesKind = ''matricesIndices'',
      MatricesIndicesExtraKind = ''matricesIndicesExtra'',
      MatricesWeightsKind = ''matricesWeights'',
      MatricesWeightsExtraKind = ''matricesWeightsExtra''\<rparr>"

definition babylonModes :: MaterialModes where
  "babylonModes =
     \<lparr>TriangleFillMode = 0, TriangleStripDrawMode = 7, TriangleFanDrawMode = 8,
      PointListDrawMode = 3, PointFillMode = 2, LineLoopDrawMode = 5,
      LineListDrawMode = 4, LineStripDrawMode = 6\<rparr>"

text \<open>
  An environment for scenes without materials: the material exporter is never called,
  and answers \<open>-1\<close> if it is.
\<close>

definition exampleEnvironment :: "int Environment" where
  "exampleEnvironment =
     \<lparr>env_VertexBuffer = babylonKinds, env_Material = babylonModes,
      exportPBRMaterialAsync = (\<lambda>this babylonMaterial hasUVs. Inr (- 1, this)),
      exportStandardMaterialAsync = (\<lambda>this babylonMaterial hasUVs. Inr (- 1, this))\<rparr>"

text \<open>
  One triangle: the positions \<open>(0,0,0)\<close>, \<open>(1,0,0)\<close>, \<open>(0,1,0)\<close> as 36 bytes of
  little-endian 32-bit floats, and the indices \<open>0, 1, 2\<close> in a plain array.
\<close>

definition trianglePositions :: "int number list" where
  "trianglePositions = map Finite [0, 0, 0, 1, 0, 0, 0, 1, 0]"

definition trianglePositionBytes :: "byte list" where
  "trianglePositionBytes =
     [0, 0, 0, 0,  0, 0, 0, 0,  0, 0, 0, 0,
      0, 0, 128, 63,  0, 0, 0, 0,  0, 0, 0, 0,
      0, 0, 0, 0,  0, 0, 128, 63,  0, 0, 0, 0]"

definition trianglePositionBuffer :: "int VertexBuffer" where
  "trianglePositionBuffer =
     \<lparr>vb_id = 20, vb_kind = ''position'',
      vb_buffer = \<lparr>buf_id = 30, buf_data = Some trianglePositionBytes\<rparr>,
      vb_byteOffset = 0, vb_byteStride = 12, vb_type = FLOAT,
      vb_floatData = Some trianglePositions\<rparr>"

definition triangleIndices :: IndicesArray where
  "triangleIndices = \<lparr>ia_id = 10, ia_storage = PlainArray, ia_values = [0, 1, 2]\<rparr>"

definition wholeTriangle :: SubMesh where
  "wholeTriangle =
     \<lparr>indexStart = 0, indexCount = 3, verticesStart = 0, verticesCount = 3,
      sm_materialIndex = 0, sm_material = None\<rparr>"

text \<open>
  An indexed triangle mesh with two sub meshes over the same range of indices and
  vertices.
\<close>

definition twiceTheTriangle :: "int Mesh" where
  "twiceTheTriangle =
     \<lparr>mesh_id = 1, isUnIndexed = False, mesh_indices = Some triangleIndices,
      mesh_hasGeometry = True,
      mesh_vertexBuffers = Some [(''position'', trianglePositionBuffer)],
      subMeshes = [wholeTriangle, wholeTriangle],
      overrideRenderingFillMode = None\<rparr>"

text \<open>
  The scene of the specification's scenario, one mesh of 3 vertices without indices,
  and an instance of that mesh beside it. The transform of a node plays no part:
  \<open>noTransformation\<close> leaves the output node as it is.
\<close>

definition triangleMesh :: "int Mesh" where
  "triangleMesh =
     \<lparr>mesh_id = 1, isUnIndexed = True, mesh_indices = None,
      mesh_hasGeometry = True,
      mesh_vertexBuffers = Some [(''position'', trianglePositionBuffer)],
      subMeshes = [wholeTriangle],
      overrideRenderingFillMode = None\<rparr>"

definition triangleNode :: "(int, int) Node" where
  "triangleNode =
     \<lparr>bn_id = 1, bn_name = ''triangle'', bn_parent = None,
      bn_class = MeshClass triangleMesh, bn_worldMatrix = 1\<rparr>"

definition triangleInstance :: "(int, int) Node" where
  "triangleInstance =
     \<lparr>bn_id = 2, bn_name = ''instance'', bn_parent = None,
      bn_class = InstancedMeshClass triangleMesh, bn_worldMatrix = 1\<rparr>"

text \<open>A mesh node without geometry, exported before the triangle in one example.\<close>

definition emptyMesh :: "int Mesh" where
  "emptyMesh =
     \<lparr>mesh_id = 4, isUnIndexed = True, mesh_indices = None,
      mesh_hasGeometry = False, mesh_vertexBuffers = None,
      subMeshes = [], overrideRenderingFillMode = None\<rparr>"

definition emptyMeshNode :: "(int, int) Node" where
  "emptyMeshNode =
     \<lparr>bn_id = 4, bn_name = ''empty'', bn_parent = None,
      bn_class = MeshClass emptyMesh, bn_worldMatrix = 2\<rparr>"

definition noTransformation :: "int Exporter \<Rightarrow> int INode \<Rightarrow> (int, int) Node \<Rightarrow> int INode" where
  "noTransformation this node babylonNode = node"

text \<open>
  A right-handed scene with two roots: an empty transform node \<open>helper\<close> with an
  identity world matrix, and the triangle. The export options leave \<open>helper\<close> out. The
  matrices of this scene are scalings of the X axis, given by their factor.
\<close>

definition scalingOps :: "int MatrixOps" where
  "scalingOps = \<lparr>isIdentity = (\<lambda>m. m = 1), multiplyToRef = (\<lambda>a b. a * b),
                  convertHandednessMatrix = - 1\<rparr>"

definition helperNode :: "(int, int) Node" where
  "helperNode =
     \<lparr>bn_id = 3, bn_name = ''helper'', bn_parent = None,
      bn_class = TransformNodeClass, bn_worldMatrix = 1\<rparr>"

definition helperScene :: "(int, int) Scene" where
  "helperScene =
     \<lparr>scene_transformNodes = [helperNode], scene_meshes = [triangleNode],
      scene_lights = [], scene_cameras = [],
      scene_rootNodes = [helperNode, triangleNode],
      useRightHandedSystem = True,
      getDescendants = (\<lambda>node. [])\<rparr>"

definition withoutHelper :: "(int, int) ExportOptions" where
  "withoutHelper =
     \<lparr>shouldExportNode = Some (\<lambda>node. bn_name node \<noteq> ''helper''),
      removeNoopRootNodes = None,
      includeCoordinateSystemConversionNodes = None\<rparr>"


section \<open>Properties\<close>

declare minMaxLoop.simps [simp del]
declare applyExtension.simps [simp del]

subsection \<open>Padding\<close>

lemma js_rem_nonneg: "0 \<le> a \<Longrightarrow> js_rem a 4 = a mod 4"
  by (cases "a = 0") (simp_all add: js_rem_def)

lemma getPadding_nonneg:
  "0 \<le> L \<Longrightarrow> getPadding L = (if L mod 4 = 0 then 0 else 4 - L mod 4)"
  by (simp add: getPadding_def js_rem_nonneg)

lemma getPadding_range: "0 \<le> n \<Longrightarrow> 0 \<le> getPadding n \<and> getPadding n \<le> 3"
  unfolding getPadding_nonneg by presburger

text \<open>
  C5. For every non-negative integer chunk length \<open>L\<close>, the padding count \<open>P\<close>
  computed by \<open>_getPadding\<close> satisfies \<open>(L + P) mod 4 = 0\<close> and \<open>0 \<le> P \<le> 3\<close>, and
  equals \<open>(4 - L mod 4) mod 4\<close>.
\<close>

theorem getPadding_spec:
  assumes "0 \<le> L"
  shows "(L + getPadding L) mod 4 = 0
       \<and> 0 \<le> getPadding L \<and> getPadding L \<le> 3
       \<and> getPadding L = (4 - L mod 4) mod 4"
  unfolding getPadding_nonneg [OF assms] by presburger

theorem getPadding_spec_witness:
  "(0::int) \<le> 5 \<and> ((5 + getPadding 5) mod 4 = 0
     \<and> 0 \<le> getPadding 5 \<and> getPadding 5 \<le> 3
     \<and> getPadding 5 = (4 - 5 mod 4) mod 4)"
proof -
  have h: "(0::int) \<le> 5" by simp
  show ?thesis by (rule conjI [OF h getPadding_spec [OF h]])
qed

subsection \<open>The binary container\<close>

lemma length_uint32Bytes: "length (uint32Bytes v) = 4"
  by (simp add: uint32Bytes_def Let_def)

lemma length_writeBytes:
  "offset + length bytes \<le> length buffer \<Longrightarrow> length (writeBytes buffer offset bytes) = length buffer"
  by (simp add: writeBytes_def)

lemma byte_decomposition:
  fixes u :: int
  assumes "0 \<le> u" "u < 2 ^ 32"
  shows "u mod 256 + 256 * (u div 256 mod 256) + 65536 * (u div 65536 mod 256)
          + 16777216 * (u div 16777216 mod 256) = u"
proof -
  define q1 where "q1 = u div 256"
  define q2 where "q2 = q1 div 256"
  define q3 where "q3 = q2 div 256"
  define r0 where "r0 = u mod 256"
  define r1 where "r1 = q1 mod 256"
  define r2 where "r2 = q2 mod 256"
  have e2: "u div 65536 = q2"
    unfolding q2_def q1_def by (simp add: zdiv_zmult2_eq [symmetric])
  have e3: "u div 16777216 = q3"
    unfolding q3_def q2_def q1_def by (simp add: zdiv_zmult2_eq [symmetric])
  have "u div 16777216 < 256" using assms by simp
  moreover have "0 \<le> u div 16777216" using assms by simp
  ultimately have s: "q3 mod 256 = q3" unfolding e3 by simp
  have a: "u = 256 * q1 + r0" unfolding q1_def r0_def by simp
  have b: "q1 = 256 * q2 + r1" unfolding q2_def r1_def by simp
  have c: "q2 = 256 * q3 + r2" unfolding q3_def r2_def by simp
  have "r0 + 256 * r1 + 65536 * r2 + 16777216 * q3 = u"
    using a b c by simp
  then show ?thesis
    unfolding e2 e3 s r0_def r1_def r2_def q1_def [symmetric] .
qed

lemma uint_byte_mod: "uint (word_of_int (x mod 256) :: byte) = x mod 256"
  by (simp add: uint_word_of_int take_bit_eq_mod)

lemma decode_uint32Bytes:
  "uint (uint32Bytes v ! 0) + 256 * uint (uint32Bytes v ! 1)
     + 65536 * uint (uint32Bytes v ! 2) + 16777216 * uint (uint32Bytes v ! 3) = toUint32 v"
proof -
  define u where "u = toUint32 v"
  have u: "0 \<le> u" "u < 2 ^ 32" by (simp_all add: u_def toUint32_def)
  have b0: "uint (uint32Bytes v ! 0) = u mod 256"
    by (simp only: uint32Bytes_def Let_def u_def nth_Cons_0 uint_byte_mod)
  have b1: "uint (uint32Bytes v ! 1) = u div 256 mod 256"
    by (simp only: uint32Bytes_def Let_def u_def nth_Cons_0 nth_Cons_numeral
          One_nat_def nth_Cons_Suc uint_byte_mod)
  have b2: "uint (uint32Bytes v ! 2) = u div 65536 mod 256"
    by (simp add: uint32Bytes_def Let_def u_def uint_byte_mod del: uint_word_of_int_eq)
  have b3: "uint (uint32Bytes v ! 3) = u div 16777216 mod 256"
    by (simp add: uint32Bytes_def Let_def u_def uint_byte_mod del: uint_word_of_int_eq)
  show ?thesis
    unfolding b0 b1 b2 b3 u_def [symmetric] using byte_decomposition [OF u] .
qed

lemma getUint32_at:
  "getUint32 (pre @ uint32Bytes v @ post) (length pre) = toUint32 v"
proof -
  have "\<And>k. k < 4 \<Longrightarrow> (pre @ uint32Bytes v @ post) ! (length pre + k) = uint32Bytes v ! k"
    by (simp add: nth_append length_uint32Bytes)
  from this [of 0] this [of 1] this [of 2] this [of 3] show ?thesis
    using decode_uint32Bytes [of v] by (simp add: getUint32_def)
qed

lemma headerBuffer_eq:
  "headerBuffer t = uint32Bytes 0x46546c67 @ uint32Bytes 2 @ uint32Bytes t"
  by (simp add: headerBuffer_def Let_def setUint32_def writeBytes_def newArrayBuffer_def
      headerLength_def length_uint32Bytes)

lemma jsonLengthOf_nonneg: "0 \<le> jsonLengthOf TextEncoder jsonText"
  by (simp add: jsonLengthOf_def byteLengthOf_def split: option.split)

lemma length_encodedJson:
  "int (length (encodedJson TextEncoder jsonText)) = jsonLengthOf TextEncoder jsonText"
  by (simp add: encodedJson_def jsonLengthOf_def byteLengthOf_def fallbackJsonBytes_def
      split: option.split)

lemma imageByteLengthOf_foldl:
  "foldl (\<lambda>n d. n + byteLengthOf d) a ds = a + int (length (concat ds))"
  by (induction ds arbitrary: a) (simp_all add: byteLengthOf_def)

lemma imageByteLengthOf_concat:
  "imageByteLengthOf orderedImageData = int (length (concat orderedImageData))"
  by (simp add: imageByteLengthOf_def imageByteLengthOf_foldl)

lemma writeBytes_zeros:
  "writeBytes (pre @ replicate n z) (length pre) bytes
   = pre @ bytes @ replicate (n - length bytes) z"
  by (simp add: writeBytes_def)

lemma jsonChunkBuffer_eq:
  "jsonChunkBuffer TextEncoder jsonText
   = uint32Bytes (jsonLengthOf TextEncoder jsonText + getPadding (jsonLengthOf TextEncoder jsonText))
     @ uint32Bytes 0x4e4f534a
     @ encodedJson TextEncoder jsonText
     @ replicate (nat (getPadding (jsonLengthOf TextEncoder jsonText))) 0x20"
proof -
  define jl where "jl = jsonLengthOf TextEncoder jsonText"
  define pad where "pad = getPadding jl"
  define enc where "enc = encodedJson TextEncoder jsonText"
  have jl: "0 \<le> jl" by (simp add: jl_def jsonLengthOf_nonneg)
  have pad: "0 \<le> pad" using getPadding_range [OF jl] by (simp add: pad_def)
  have len: "length enc = nat jl"
    using length_encodedJson [of TextEncoder jsonText] by (simp add: enc_def jl_def)
  have n: "nat (chunkLengthPrefix + jl + pad) = 4 + (4 + (nat jl + nat pad))"
    using jl pad by (simp add: chunkLengthPrefix_def)
  have b0: "newArrayBuffer (chunkLengthPrefix + jl + pad)
            = replicate 4 0 @ replicate 4 0 @ replicate (nat jl) 0 @ replicate (nat pad) 0"
    unfolding newArrayBuffer_def n by (simp only: replicate_add)
  have b1: "setUint32 (newArrayBuffer (chunkLengthPrefix + jl + pad)) 0 (jl + pad)
            = uint32Bytes (jl + pad) @ replicate 4 0 @ replicate (nat jl) 0 @ replicate (nat pad) 0"
    unfolding b0 by (simp add: setUint32_def writeBytes_def length_uint32Bytes)
  have b2: "setUint32 (uint32Bytes (jl + pad) @ replicate 4 0 @ replicate (nat jl) 0
                        @ replicate (nat pad) 0) 4 0x4e4f534a
            = uint32Bytes (jl + pad) @ uint32Bytes 0x4e4f534a @ replicate (nat jl) 0
                @ replicate (nat pad) 0"
    by (simp add: setUint32_def writeBytes_def length_uint32Bytes)
  have b3: "writeBytes (uint32Bytes (jl + pad) @ uint32Bytes 0x4e4f534a @ replicate (nat jl) 0
                         @ replicate (nat pad) 0) (nat chunkLengthPrefix) enc
            = uint32Bytes (jl + pad) @ uint32Bytes 0x4e4f534a @ enc @ replicate (nat pad) 0"
    by (simp add: writeBytes_def length_uint32Bytes chunkLengthPrefix_def len)
  have b4: "writeBytes (uint32Bytes (jl + pad) @ uint32Bytes 0x4e4f534a @ enc
                         @ replicate (nat pad) 0) (nat (chunkLengthPrefix + jl))
              (replicate (nat pad) 0x20)
            = uint32Bytes (jl + pad) @ uint32Bytes 0x4e4f534a @ enc @ replicate (nat pad) 0x20"
    using jl by (simp add: writeBytes_def length_uint32Bytes chunkLengthPrefix_def len nat_add_distrib)
  show ?thesis
    unfolding jsonChunkBuffer_def Let_def jl_def [symmetric] pad_def [symmetric]
      enc_def [symmetric] b1 b2 b3 b4 ..
qed

lemma binaryChunkBuffer_eq:
  "binaryChunkBuffer binaryBuffer orderedImageData
   = uint32Bytes (byteLengthOf binaryBuffer + imageByteLengthOf orderedImageData
                    + getPadding (imageByteLengthOf orderedImageData))
     @ uint32Bytes 0x004e4942"
  by (simp add: binaryChunkBuffer_def Let_def setUint32_def writeBytes_def newArrayBuffer_def
      chunkLengthPrefix_def length_uint32Bytes)

lemma generateGLB_eq:
  "generateGLB TextEncoder jsonText binaryBuffer orderedImageData
   = headerBuffer (totalByteLength TextEncoder jsonText binaryBuffer orderedImageData)
     @ jsonChunkBuffer TextEncoder jsonText
     @ binaryChunkBuffer binaryBuffer orderedImageData
     @ binaryBuffer
     @ concat orderedImageData
     @ replicate (nat (getPadding (byteLengthOf binaryBuffer))) 0
     @ replicate (nat (getPadding (imageByteLengthOf orderedImageData))) 0"
  by (simp add: generateGLB_def glbData_def Let_def newArrayBuffer_def)

lemma length_headerBuffer: "length (headerBuffer t) = 12"
  by (simp add: headerBuffer_eq length_uint32Bytes)

lemma length_jsonChunkBuffer:
  "int (length (jsonChunkBuffer TextEncoder jsonText))
   = chunkLengthPrefix + jsonLengthOf TextEncoder jsonText
       + getPadding (jsonLengthOf TextEncoder jsonText)"
  using getPadding_range [OF jsonLengthOf_nonneg, of TextEncoder jsonText]
    length_encodedJson [of TextEncoder jsonText]
  by (simp add: jsonChunkBuffer_eq length_uint32Bytes chunkLengthPrefix_def)

lemma length_binaryChunkBuffer: "length (binaryChunkBuffer binaryBuffer orderedImageData) = 8"
  by (simp add: binaryChunkBuffer_eq length_uint32Bytes)

lemma length_generateGLB:
  "int (length (generateGLB TextEncoder jsonText binaryBuffer orderedImageData))
   = totalByteLength TextEncoder jsonText binaryBuffer orderedImageData"
proof -
  have p1: "0 \<le> getPadding (byteLengthOf binaryBuffer)"
    using getPadding_range [of "byteLengthOf binaryBuffer"] by (simp add: byteLengthOf_def)
  have p2: "0 \<le> getPadding (imageByteLengthOf orderedImageData)"
    using getPadding_range [of "imageByteLengthOf orderedImageData"]
    by (simp add: imageByteLengthOf_concat)
  show ?thesis
    using p1 p2 length_jsonChunkBuffer [of TextEncoder jsonText]
    by (simp add: generateGLB_eq length_headerBuffer length_binaryChunkBuffer
        totalByteLength_def Let_def headerLength_def chunkLengthPrefix_def byteLengthOf_def
        imageByteLengthOf_concat)
qed

lemma header_fields:
  "getUint32 (generateGLB TextEncoder jsonText binaryBuffer orderedImageData) 0 = 0x46546C67
   \<and> getUint32 (generateGLB TextEncoder jsonText binaryBuffer orderedImageData) 4 = 2
   \<and> getUint32 (generateGLB TextEncoder jsonText binaryBuffer orderedImageData) 8
       = toUint32 (totalByteLength TextEncoder jsonText binaryBuffer orderedImageData)"
proof -
  let ?t = "totalByteLength TextEncoder jsonText binaryBuffer orderedImageData"
  obtain rest where f: "generateGLB TextEncoder jsonText binaryBuffer orderedImageData
      = uint32Bytes 0x46546c67 @ uint32Bytes 2 @ uint32Bytes ?t @ rest"
    by (simp add: generateGLB_eq headerBuffer_eq)
  have a: "getUint32 ([] @ uint32Bytes 0x46546c67 @ (uint32Bytes 2 @ uint32Bytes ?t @ rest)) (length ([] :: byte list))
           = toUint32 0x46546c67"
    by (rule getUint32_at)
  have b: "getUint32 (uint32Bytes 0x46546c67 @ uint32Bytes 2 @ (uint32Bytes ?t @ rest))
             (length (uint32Bytes 0x46546c67)) = toUint32 2"
    by (rule getUint32_at)
  have c: "getUint32 ((uint32Bytes 0x46546c67 @ uint32Bytes 2) @ uint32Bytes ?t @ rest)
             (length (uint32Bytes 0x46546c67 @ uint32Bytes 2)) = toUint32 ?t"
    by (rule getUint32_at)
  show ?thesis
    using a b c unfolding f by (simp add: length_uint32Bytes toUint32_def)
qed

lemma binaryChunk_declared:
  "getUint32 (generateGLB TextEncoder jsonText binaryBuffer orderedImageData)
       (binaryChunkStart TextEncoder jsonText)
   = toUint32 (byteLengthOf binaryBuffer + imageByteLengthOf orderedImageData
                 + getPadding (imageByteLengthOf orderedImageData))"
proof -
  let ?t = "totalByteLength TextEncoder jsonText binaryBuffer orderedImageData"
  let ?pre = "headerBuffer ?t @ jsonChunkBuffer TextEncoder jsonText"
  have l: "length ?pre = binaryChunkStart TextEncoder jsonText"
    using length_jsonChunkBuffer [of TextEncoder jsonText]
    by (simp add: length_headerBuffer binaryChunkStart_def headerLength_def)
  obtain post where f: "generateGLB TextEncoder jsonText binaryBuffer orderedImageData
      = ?pre @ uint32Bytes (byteLengthOf binaryBuffer + imageByteLengthOf orderedImageData
                 + getPadding (imageByteLengthOf orderedImageData)) @ post"
    by (simp add: generateGLB_eq binaryChunkBuffer_eq)
  show ?thesis unfolding f l [symmetric] by (rule getUint32_at)
qed


text \<open>
  C3. In GLB output the file consists of the 12-byte header, then a JSON chunk whose
  length prefix equals the padded JSON text length, then a binary chunk whose length
  prefix equals the number of content bytes that follow it in the file (geometry bytes,
  image bytes, zero padding), with no bytes after the declared content.

  The code departs from this when the geometry buffer is not a multiple of 4 bytes long.
  With a geometry buffer of 42 bytes (three 16-bit indices and three float positions)
  and no images, the binary chunk declares 42 bytes of content and 44 bytes follow its
  prefix: the 2 bytes of \<open>binPadding\<close> are written and counted in the header's total,
  but left out of the chunk length.
\<close>

theorem glb_binary_chunk_length_mismatch:
  "getUint32 (generateGLB TextEncoder jsonText (replicate 42 0) [])
       (binaryChunkStart TextEncoder jsonText) = 42
   \<and> int (length (generateGLB TextEncoder jsonText (replicate 42 0) []))
       - (int (binaryChunkStart TextEncoder jsonText) + chunkLengthPrefix) = 44"
proof -
  have p: "getPadding 42 = 2" "getPadding 0 = 0"
    by (simp_all add: getPadding_def js_rem_def)
  have s: "int (binaryChunkStart TextEncoder jsonText)
           = 20 + jsonLengthOf TextEncoder jsonText
               + getPadding (jsonLengthOf TextEncoder jsonText)"
    using jsonLengthOf_nonneg [of TextEncoder jsonText]
      getPadding_range [OF jsonLengthOf_nonneg, of TextEncoder jsonText]
    by (simp add: binaryChunkStart_def headerLength_def chunkLengthPrefix_def)
  have d: "getUint32 (generateGLB TextEncoder jsonText (replicate 42 0) [])
             (binaryChunkStart TextEncoder jsonText) = 42"
    unfolding binaryChunk_declared
    by (simp add: byteLengthOf_def imageByteLengthOf_def p toUint32_def)
  have l: "int (length (generateGLB TextEncoder jsonText (replicate 42 0) []))
           = 28 + jsonLengthOf TextEncoder jsonText
               + getPadding (jsonLengthOf TextEncoder jsonText) + 44"
    unfolding length_generateGLB
    by (simp add: totalByteLength_def Let_def byteLengthOf_def imageByteLengthOf_def p
        headerLength_def chunkLengthPrefix_def)
  show ?thesis
    using d l s by (simp add: chunkLengthPrefix_def)
qed

text \<open>
  C4, as stated: bytes 8 to 11 of every GLB file decode to the total byte length of the
  file. The field is 32 bits wide, so this fails for a file of \<open>2^32\<close> bytes: with a
  28-byte JSON chunk and a geometry buffer of 4294967240 bytes the field holds 0.
\<close>

theorem glb_header_length_counterexample:
  "getUint32 (generateGLB None exampleJson (replicate 4294967240 0) []) 8 = 0
   \<and> int (length (generateGLB None exampleJson (replicate 4294967240 0) [])) = 4294967296"
proof -
  have p: "getPadding 27 = 1" "getPadding 4294967240 = 0" "getPadding 0 = 0"
    by (simp_all add: getPadding_def js_rem_def)
  have j: "jsonLengthOf None exampleJson = 27"
    by (simp add: jsonLengthOf_def exampleJson_def)
  have t: "totalByteLength None exampleJson (replicate 4294967240 0) [] = 4294967296"
    by (simp add: totalByteLength_def Let_def j p byteLengthOf_def imageByteLengthOf_def
        headerLength_def chunkLengthPrefix_def)
  show ?thesis
    using header_fields [of None exampleJson "replicate 4294967240 0" "[]"]
      length_generateGLB [of None exampleJson "replicate 4294967240 0" "[]"]
    by (simp add: t toUint32_def)
qed

text \<open>
  C4, amended. For every GLB file produced by \<open>generateGLBAsync\<close>, bytes 0 to 3 decode
  little-endian to \<open>0x46546C67\<close>, bytes 4 to 7 decode to 2, and bytes 8 to 11 decode to
  the total byte length of the whole file modulo \<open>2^32\<close> (so to the total itself for a
  file shorter than \<open>2^32\<close> bytes); the total is the sum of the lengths of all byte
  segments written: header, both chunk prefixes, JSON text plus its padding, geometry
  bytes plus padding, and image bytes plus padding.
\<close>

theorem glb_header:
  "getUint32 (generateGLB TextEncoder jsonText binaryBuffer orderedImageData) 0 = 0x46546C67
   \<and> getUint32 (generateGLB TextEncoder jsonText binaryBuffer orderedImageData) 4 = 2
   \<and> getUint32 (generateGLB TextEncoder jsonText binaryBuffer orderedImageData) 8
       = int (length (generateGLB TextEncoder jsonText binaryBuffer orderedImageData)) mod 2 ^ 32
   \<and> int (length (generateGLB TextEncoder jsonText binaryBuffer orderedImageData))
       = headerLength + 2 * chunkLengthPrefix
           + jsonLengthOf TextEncoder jsonText + getPadding (jsonLengthOf TextEncoder jsonText)
           + byteLengthOf binaryBuffer + getPadding (byteLengthOf binaryBuffer)
           + imageByteLengthOf orderedImageData
           + getPadding (imageByteLengthOf orderedImageData)"
  using header_fields [of TextEncoder jsonText binaryBuffer orderedImageData]
  by (simp add: length_generateGLB toUint32_def) (simp add: totalByteLength_def Let_def)

subsection \<open>Descriptors\<close>

text \<open>
  C8, as stated: \<open>createBufferView\<close> omits \<open>byteOffset\<close> exactly when it is zero,
  \<open>byteStride\<close> exactly when it is zero or absent, and \<open>name\<close> exactly when it is
  absent. The three tests in the code are truthiness tests, so a name that is present
  but empty is omitted, and so are a byte offset and a byte stride that are \<open>NaN\<close>.
\<close>

theorem createBufferView_falsy_arguments_omitted:
  "bv_name (createBufferView (Finite 0) (Finite 0) (Finite (4::int)) None (Some [])) = None
   \<and> (Some [] :: string option) \<noteq> None
   \<and> bv_byteOffset (createBufferView (Finite 0) NaN (Finite (4::int)) (Some NaN) None) = None
   \<and> (NaN :: int number) \<noteq> Finite 0
   \<and> bv_byteStride (createBufferView (Finite 0) NaN (Finite (4::int)) (Some NaN) None) = None
   \<and> Some (NaN :: int number) \<noteq> Some (Finite 0)
   \<and> Some (NaN :: int number) \<noteq> None"
  by (simp add: createBufferView_def truthy_string_def)

text \<open>
  C8, amended. For all argument values: \<open>createBufferView\<close> omits the \<open>byteOffset\<close>
  field exactly when \<open>byteOffset\<close> is zero or \<open>NaN\<close>, omits \<open>byteStride\<close> exactly when it
  is zero, \<open>NaN\<close> or absent, and omits \<open>name\<close> exactly when it is absent or the empty
  string; a field that is not omitted holds the argument. \<open>createAccessor\<close> includes
  the \<open>byteOffset\<close> field whenever \<open>byteOffset\<close> is non-null, an explicit zero (and
  \<open>NaN\<close>) included, and includes \<open>min\<close> and \<open>max\<close> exactly when they are non-null.
\<close>

theorem descriptor_fields:
  "bv_byteOffset (createBufferView bufferIndex byteOffset byteLength byteStride name)
     = (if byteOffset = Finite 0 \<or> byteOffset = NaN then None else Some byteOffset)
   \<and> bv_byteStride (createBufferView bufferIndex byteOffset byteLength byteStride name)
     = (if byteStride = None \<or> byteStride = Some (Finite 0) \<or> byteStride = Some NaN
        then None else byteStride)
   \<and> bv_name (createBufferView bufferIndex byteOffset byteLength byteStride name)
     = (if name = None \<or> name = Some [] then None else name)
   \<and> acc_byteOffset (createAccessor bufferViewIndex type componentType count
                        accessorByteOffset min' max') = accessorByteOffset
   \<and> acc_byteOffset (createAccessor bufferViewIndex type componentType count
                        (Some (Finite 0)) min' max') = Some (Finite 0)
   \<and> acc_byteOffset (createAccessor bufferViewIndex type componentType count
                        (Some NaN) min' max') = Some NaN
   \<and> acc_min (createAccessor bufferViewIndex type componentType count
                        accessorByteOffset min' max') = min'
   \<and> acc_max (createAccessor bufferViewIndex type componentType count
                        accessorByteOffset min' max') = max'"
proof -
  have o: "bv_byteOffset (createBufferView bufferIndex byteOffset byteLength byteStride name)
             = (if byteOffset = Finite 0 \<or> byteOffset = NaN then None else Some byteOffset)"
    by (cases byteOffset) (simp_all add: createBufferView_def Let_def split: option.split)
  have s: "bv_byteStride (createBufferView bufferIndex byteOffset byteLength byteStride name)
             = (if byteStride = None \<or> byteStride = Some (Finite 0) \<or> byteStride = Some NaN
                then None else byteStride)"
  proof (cases byteStride)
    case None
    then show ?thesis by (simp add: createBufferView_def Let_def split: option.split)
  next
    case (Some st)
    then show ?thesis
      by (cases st) (simp_all add: createBufferView_def Let_def split: option.split)
  qed
  have n: "bv_name (createBufferView bufferIndex byteOffset byteLength byteStride name)
             = (if name = None \<or> name = Some [] then None else name)"
    by (simp add: createBufferView_def Let_def truthy_string_def split: option.split)
  have a: "\<And>off. acc_byteOffset (createAccessor bufferViewIndex type componentType count
                        off min' max') = off"
    by (simp add: createAccessor_def Let_def split: option.split)
  have mn: "acc_min (createAccessor bufferViewIndex type componentType count
                        accessorByteOffset min' max') = min'"
    by (simp add: createAccessor_def Let_def split: option.split)
  have mx: "acc_max (createAccessor bufferViewIndex type componentType count
                        accessorByteOffset min' max') = max'"
    by (simp add: createAccessor_def Let_def split: option.split)
  show ?thesis
    unfolding o s n a mn mx by simp
qed

subsection \<open>Position bounds\<close>

lemma upt_positionStrideSize: "[0 ..< positionStrideSize] = [0, 1, 2]"
  by (simp add: positionStrideSize_def upt_rec numeral_3_eq_3)

lemma scan_one_vertex:
  "foldl (minMaxStep [Finite x0, Finite x1, Finite x2]) ([a0, a1, a2], [b0, b1, b2])
      [0 ..< positionStrideSize]
   = ([lowerWith a0 x0, lowerWith a1 x1, lowerWith a2 x2],
      [upperWith b0 x0, upperWith b1 x1, upperWith b2 x2])"
  by (simp add: upt_positionStrideSize minMaxStep_def lowerWith_def upperWith_def Let_def)

lemma component_Suc:
  "a \<le> i \<Longrightarrow> component ps a (Suc i) j = insert (ps ! (3 * i + j)) (component ps a i j)"
  by (simp add: component_def atLeastLessThanSuc)

lemma component_finite: "finite (component ps a b j)"
  by (simp add: component_def)

lemma component_nonempty: "a < b \<Longrightarrow> component ps a b j \<noteq> {}"
  by (simp add: component_def)

lemma lowerWith_lowerBound:
  "a \<le> i \<Longrightarrow> lowerWith (lowerBound ps a i j) (ps ! (3 * i + j)) = lowerBound ps a (Suc i) j"
proof (cases "i = a")
  case True
  then show ?thesis by (simp add: lowerWith_def lowerBound_def component_def)
next
  case False
  assume "a \<le> i"
  with False have lt: "a < i" by simp
  have "lowerWith (Finite (Min (component ps a i j))) (ps ! (3 * i + j))
        = Finite (min (ps ! (3 * i + j)) (Min (component ps a i j)))"
    by (auto simp: lowerWith_def min_def)
  also have "min (ps ! (3 * i + j)) (Min (component ps a i j))
        = Min (insert (ps ! (3 * i + j)) (component ps a i j))"
    by (simp add: component_finite component_nonempty [OF lt])
  finally show ?thesis
    using lt by (simp add: lowerBound_def component_Suc)
qed

lemma upperWith_upperBound:
  "a \<le> i \<Longrightarrow> upperWith (upperBound ps a i j) (ps ! (3 * i + j)) = upperBound ps a (Suc i) j"
proof (cases "i = a")
  case True
  then show ?thesis by (simp add: upperWith_def upperBound_def component_def)
next
  case False
  assume "a \<le> i"
  with False have lt: "a < i" by simp
  have "upperWith (Finite (Max (component ps a i j))) (ps ! (3 * i + j))
        = Finite (max (ps ! (3 * i + j)) (Max (component ps a i j)))"
    by (auto simp: upperWith_def max_def)
  also have "max (ps ! (3 * i + j)) (Max (component ps a i j))
        = Max (insert (ps ! (3 * i + j)) (component ps a i j))"
    by (simp add: component_finite component_nonempty [OF lt])
  finally show ?thesis
    using lt by (simp add: upperBound_def component_Suc)
qed

lemma Vector3_FromArray_finite:
  "3 * i + 2 < length ps \<Longrightarrow>
   Vector3_FromArray (map Finite ps) (positionStrideSize * i)
   = [Finite (ps ! (3 * i + 0)), Finite (ps ! (3 * i + 1)), Finite (ps ! (3 * i + 2))]"
  by (simp add: Vector3_FromArray_def readAt_def positionStrideSize_def)

lemma minMaxLoop_bounds:
  "a \<le> i \<Longrightarrow> i \<le> len \<Longrightarrow> 3 * len \<le> length ps \<Longrightarrow> mm = bounds ps a i \<Longrightarrow>
   minMaxLoop (map Finite ps) i len mm = bounds ps a len"
proof (induction "map Finite ps" i len mm rule: minMaxLoop.induct)
  case (1 i len mm)
  show ?case
  proof (cases "i < len")
    case True
    then have r: "3 * i + 2 < length ps" using "1.prems" by simp
    have step:
      "foldl (minMaxStep (Vector3_FromArray (map Finite ps) (positionStrideSize * i)))
             mm [0 ..< positionStrideSize] = bounds ps a (i + 1)"
      unfolding Vector3_FromArray_finite [OF r] "1.prems"(4) bounds_def scan_one_vertex
      by (simp only: lowerWith_lowerBound [OF "1.prems"(1)]
            upperWith_upperBound [OF "1.prems"(1)] Suc_eq_plus1)
    have "minMaxLoop (map Finite ps) (i + 1) len
            (foldl (minMaxStep (Vector3_FromArray (map Finite ps) (positionStrideSize * i)))
             mm [0 ..< positionStrideSize]) = bounds ps a len"
      by (rule "1.hyps") (use True "1.prems" step in simp_all)
    then show ?thesis using True by (subst minMaxLoop.simps) simp
  next
    case False
    then have "i = len" using "1.prems" by simp
    then show ?thesis using "1.prems" by (subst minMaxLoop.simps) simp
  qed
qed

lemma calculateMinMaxPositions_eq_bounds:
  "3 * (vertexStart + vertexCount) \<le> length ps \<Longrightarrow>
   calculateMinMaxPositions (map Finite ps) vertexStart vertexCount
   = bounds ps vertexStart (vertexStart + vertexCount)"
  using minMaxLoop_bounds
    [of vertexStart vertexStart "vertexStart + vertexCount" ps "bounds ps vertexStart vertexStart"]
  by (auto simp: calculateMinMaxPositions_def Let_def bounds_def lowerBound_def upperBound_def)

text \<open>
  C7. For every positions array of finite values and every vertex range
  \<open>[start, start + count)\<close> that lies inside the array,
  \<open>calculateMinMaxPositions positions start count\<close> returns two 3-element arrays equal
  to the exact component-wise minimum and maximum of the 3-component tuples at indices
  \<open>3 * start\<close> through \<open>3 * (start + count) - 1\<close>; and the result is the pair of
  sentinels \<open>[+Inf, +Inf, +Inf]\<close>, \<open>[-Inf, -Inf, -Inf]\<close> if and only if \<open>count = 0\<close>.
\<close>

theorem calculateMinMaxPositions_exact:
  assumes "3 * (vertexStart + vertexCount) \<le> length ps"
  shows "calculateMinMaxPositions (map Finite ps) vertexStart vertexCount
         = (if vertexCount = 0
            then ([Infinity, Infinity, Infinity], [NegInfinity, NegInfinity, NegInfinity])
            else (map (\<lambda>j. Finite (Min ((\<lambda>i. ps ! (3 * i + j))
                                          ` {vertexStart ..< vertexStart + vertexCount})))
                      [0, 1, 2],
                  map (\<lambda>j. Finite (Max ((\<lambda>i. ps ! (3 * i + j))
                                          ` {vertexStart ..< vertexStart + vertexCount})))
                      [0, 1, 2]))
       \<and> (calculateMinMaxPositions (map Finite ps) vertexStart vertexCount
            = ([Infinity, Infinity, Infinity], [NegInfinity, NegInfinity, NegInfinity])
          \<longleftrightarrow> vertexCount = 0)"
  unfolding calculateMinMaxPositions_eq_bounds [OF assms]
  by (simp add: bounds_def lowerBound_def upperBound_def component_def)

theorem calculateMinMaxPositions_exact_witness:
  "3 * (0 + 2) \<le> length [1, 5, 2, 0, 7, 3 :: int]
   \<and> (calculateMinMaxPositions (map Finite [1, 5, 2, 0, 7, 3 :: int]) 0 2
         = (if (2::nat) = 0
            then ([Infinity, Infinity, Infinity], [NegInfinity, NegInfinity, NegInfinity])
            else (map (\<lambda>j. Finite (Min ((\<lambda>i. [1, 5, 2, 0, 7, 3 :: int] ! (3 * i + j))
                                          ` {0 ..< 0 + 2})))
                      [0, 1, 2],
                  map (\<lambda>j. Finite (Max ((\<lambda>i. [1, 5, 2, 0, 7, 3 :: int] ! (3 * i + j))
                                          ` {0 ..< 0 + 2})))
                      [0, 1, 2]))
       \<and> (calculateMinMaxPositions (map Finite [1, 5, 2, 0, 7, 3 :: int]) 0 2
            = ([Infinity, Infinity, Infinity], [NegInfinity, NegInfinity, NegInfinity])
          \<longleftrightarrow> (2::nat) = 0))"
proof -
  have h: "3 * (0 + 2) \<le> length [1, 5, 2, 0, 7, 3 :: int]" by simp
  show ?thesis by (rule conjI [OF h calculateMinMaxPositions_exact [OF h]])
qed

subsection \<open>Closed mappings\<close>

text \<open>
  C9. \<open>getAccessorType\<close> and \<open>getAttributeType\<close> return a value for every kind in the
  fixed enumerated set (position, normal, tangent, color, UV channels 0 to 5, joint
  indices twice, joint weights twice) and throw an error for every other kind; likewise
  \<open>getPrimitiveMode\<close> returns a topology for every fill mode it lists and throws an
  error for every other fill mode. None of them skips silently.
\<close>

theorem closed_mappings:
  "(kind \<in> set (attributeKinds VertexBuffer)
      \<longleftrightarrow> (\<exists>t. getAccessorType VertexBuffer kind = Inr t))
   \<and> (kind \<notin> set (attributeKinds VertexBuffer)
      \<longleftrightarrow> getAccessorType VertexBuffer kind = Inl (UnknownKind kind))
   \<and> (kind \<in> set (attributeKinds VertexBuffer)
      \<longleftrightarrow> (\<exists>n. getAttributeType VertexBuffer kind = Inr n))
   \<and> (kind \<notin> set (attributeKinds VertexBuffer)
      \<longleftrightarrow> getAttributeType VertexBuffer kind = Inl (UnknownKind kind))
   \<and> (fillMode \<in> set (mappedFillModes Material)
      \<longleftrightarrow> (\<exists>m. getPrimitiveMode Material fillMode = Inr m))
   \<and> (fillMode \<notin> set (mappedFillModes Material)
      \<longleftrightarrow> getPrimitiveMode Material fillMode = Inl (UnknownFillMode fillMode))"
proof -
  have a: "kind \<in> set (attributeKinds VertexBuffer)
             \<longleftrightarrow> (\<exists>t. getAccessorType VertexBuffer kind = Inr t)"
    by (auto simp add: attributeKinds_def getAccessorType_def)
  have a': "kind \<notin> set (attributeKinds VertexBuffer)
             \<longleftrightarrow> getAccessorType VertexBuffer kind = Inl (UnknownKind kind)"
    by (auto simp add: attributeKinds_def getAccessorType_def)
  have b: "kind \<in> set (attributeKinds VertexBuffer)
             \<longleftrightarrow> (\<exists>n. getAttributeType VertexBuffer kind = Inr n)"
    by (auto simp add: attributeKinds_def getAttributeType_def)
  have b': "kind \<notin> set (attributeKinds VertexBuffer)
             \<longleftrightarrow> getAttributeType VertexBuffer kind = Inl (UnknownKind kind)"
    by (auto simp add: attributeKinds_def getAttributeType_def)
  have c: "fillMode \<in> set (mappedFillModes Material)
             \<longleftrightarrow> (\<exists>m. getPrimitiveMode Material fillMode = Inr m)"
    by (auto simp add: mappedFillModes_def getPrimitiveMode_def)
  have c': "fillMode \<notin> set (mappedFillModes Material)
             \<longleftrightarrow> getPrimitiveMode Material fillMode = Inl (UnknownFillMode fillMode)"
    by (auto simp add: mappedFillModes_def getPrimitiveMode_def)
  from a a' b b' c c' show ?thesis by blast
qed

subsection \<open>Exporter state\<close>

lemmas example_defs =
  exampleEnvironment_def babylonKinds_def babylonModes_def trianglePositions_def
  trianglePositionBytes_def trianglePositionBuffer_def triangleIndices_def wholeTriangle_def
  twiceTheTriangle_def triangleMesh_def triangleNode_def triangleInstance_def
  emptyMesh_def emptyMeshNode_def noTransformation_def

lemmas export_defs =
  newExporter_def newExporterState_def
  exportMeshAsync_def exportPrimitive_def exportPrimitiveMaterial_def exportPrimitiveMode_def
  exportPrimitiveIndices_def exportPrimitiveAttribute_def
  exportIndicesData_def exportIndices_def exportBuffer_def exportVertexBuffer_def
  getState_def putState_def shouldConvertToRightHanded_def
  getIndicesBufferView_def setIndicesBufferView_def getIndicesAccessor_def setIndicesAccessor_def
  getAttributeBufferView_def setAttributeBufferView_def getAttributeAccessor_def
  setAttributeAccessor_def getMesh_def setMesh_def
  getPrimitiveMode_def getAccessorType_def getAttributeType_def startsWith_def
  dw_byteOffset_def writeUint8Array_def createBufferView_def createAccessor_def
  isIndicesArray32Bits_def indicesArrayToUint8Array_def elementBytes_def
  exportNodeAsync_def instanceofTransformNode_def truthy_string_def

text \<open>
  C1. For every exporter state and every (source object, start, count) key the dedup
  cache maps the key to at most one output index, and lookups are idempotent: exporting
  the same sub mesh range twice returns the same accessor index both times, without
  writing duplicate buffer-view bytes; after \<open>setIndicesAccessor\<close> or
  \<open>setAttributeAccessor\<close> stores an index for a key, the matching \<open>get\<close> with the same
  key returns that index.

  The code departs from this. The two \<open>set\<close> methods put the index into maps that they
  never store in the state: a \<open>set\<close> never adds a source object to the accessor map of
  any state, so on a new state the lookup that follows finds nothing, whatever the key. A mesh with two sub meshes over the same indices and the same
  vertices gets the accessors 0 and 1 for the first primitive and the new accessors 2
  and 3 for the second: four accessors, for two buffer views and 42 bytes written once.
\<close>

theorem accessor_cache_forgets:
  "dom (indicesAccessorMap (setIndicesAccessor this indices start amount accessorIndex))
     = dom (indicesAccessorMap this)
   \<and> dom (attributeAccessorMap (setAttributeAccessor this vertexBuffer start amount accessorIndex))
     = dom (attributeAccessorMap this)
   \<and> getIndicesAccessor
       (setIndicesAccessor newExporterState indices start amount accessorIndex)
       indices start amount = None
   \<and> getAttributeAccessor
       (setAttributeAccessor newExporterState vertexBuffer start amount accessorIndex)
       vertexBuffer start amount = None
   \<and> map_sum id
         (\<lambda>r. (map prim_indices (primitives (meshes (snd r) ! 0)),
               map (\<lambda>p. prim_attributes p ''POSITION'') (primitives (meshes (snd r) ! 0)),
               length (accessors (snd r)), length (bufferViews (snd r)),
               length (dataWriter (snd r))))
         (exportMeshAsync exampleEnvironment (newExporter False) twiceTheTriangle)
       = Inr ([Some 0, Some 2], [Some 1, Some 3], 4, 2, 42)"
proof -
  have d: "dom (indicesAccessorMap (setIndicesAccessor this indices start amount accessorIndex))
             = dom (indicesAccessorMap this)"
    by (auto simp: setIndicesAccessor_def split: option.splits)
  have e: "dom (attributeAccessorMap
                  (setAttributeAccessor this vertexBuffer start amount accessorIndex))
             = dom (attributeAccessorMap this)"
    by (auto simp: setAttributeAccessor_def split: option.splits)
  have a: "getIndicesAccessor
       (setIndicesAccessor newExporterState indices start amount accessorIndex)
       indices start amount = None"
    by (simp add: getIndicesAccessor_def setIndicesAccessor_def newExporterState_def)
  have b: "getAttributeAccessor
       (setAttributeAccessor newExporterState vertexBuffer start amount accessorIndex)
       vertexBuffer start amount = None"
    by (simp add: getAttributeAccessor_def setAttributeAccessor_def newExporterState_def)
  have c: "map_sum id
         (\<lambda>r. (map prim_indices (primitives (meshes (snd r) ! 0)),
               map (\<lambda>p. prim_attributes p ''POSITION'') (primitives (meshes (snd r) ! 0)),
               length (accessors (snd r)), length (bufferViews (snd r)),
               length (dataWriter (snd r))))
         (exportMeshAsync exampleEnvironment (newExporter False) twiceTheTriangle)
       = Inr ([Some 0, Some 2], [Some 1, Some 3], 4, 2, 42)"
    by (simp add: example_defs export_defs Let_def)
  from d e a b c show ?thesis by (intro conjI)
qed

text \<open>
  C2. For every node that carries renderable geometry (a mesh, or an instance of a
  source mesh), if the node's exporter state already maps that source mesh to an output
  mesh index, node export assigns the cached index to the node and creates no new
  output mesh, also when the cached index is 0.

  The code departs from this at the cached index 0. The triangle mesh is exported first
  and gets the mesh index 0; its instance finds the cached 0, which \<open>||\<close> takes for a
  miss, and exports the source mesh again: the instance refers to mesh 1 and the
  document holds two meshes. With another mesh exported first the triangle gets the
  index 1, and its instance reuses it.
\<close>

theorem cached_mesh_index_zero_exported_again:
  "map_sum id (\<lambda>this. (map node_mesh (nodes this), length (meshes this)))
       (exportNodesAsync noTransformation exampleEnvironment (newExporter False)
          [triangleNode, triangleInstance])
     = Inr ([Some 0, Some 1], 2)
   \<and> map_sum id (\<lambda>this. (map node_mesh (nodes this), length (meshes this)))
       (exportNodesAsync noTransformation exampleEnvironment (newExporter False)
          [emptyMeshNode, triangleNode, triangleInstance])
     = Inr ([Some 0, Some 1, Some 1], 2)"
proof -
  have a: "map_sum id (\<lambda>this. (map node_mesh (nodes this), length (meshes this)))
       (exportNodesAsync noTransformation exampleEnvironment (newExporter False)
          [triangleNode, triangleInstance])
     = Inr ([Some 0, Some 1], 2)"
    by (simp add: example_defs export_defs Let_def)
  have b: "map_sum id (\<lambda>this. (map node_mesh (nodes this), length (meshes this)))
       (exportNodesAsync noTransformation exampleEnvironment (newExporter False)
          [emptyMeshNode, triangleNode, triangleInstance])
     = Inr ([Some 0, Some 1, Some 1], 2)"
    by (simp add: example_defs export_defs Let_def)
  from a b show ?thesis by (intro conjI)
qed

subsection \<open>Scene walk\<close>

lemma helperNode_noop: "isNoopNode scalingOps helperNode True"
  by (simp add: isNoopNode_def instanceofTransformNode_def helperNode_def scalingOps_def)

lemma triangleNode_not_noop: "\<not> isNoopNode scalingOps triangleNode True"
  by (simp add: isNoopNode_def instanceofTransformNode_def triangleNode_def triangleMesh_def
      scalingOps_def)

text \<open>
  C6. During scene export with no-op root pruning enabled, every root node that is a
  transform node with an identity world transform and without geometry is removed from
  the export node list (and, in a left-handed scene, it and its descendants from the
  conversion set); no other node is removed from the export list or the conversion set
  by this step.

  The code departs from the last part. When a no-op root is not in the export list,
  because \<open>shouldExportNode\<close> left it out, \<open>indexOf\<close> answers \<open>-1\<close> and
  \<open>splice(-1, 1)\<close> removes the last node of the list. In the scene below the options
  leave the no-op root \<open>helper\<close> out; the triangle mesh is the only node to export, is
  not a no-op node, and is removed. With pruning switched off it stays.
\<close>

theorem noop_pruning_removes_another_node:
  "map bn_id (walk_nodes (selectNodes scalingOps withoutHelper helperScene)) = []
   \<and> walk_removedRootNodes (selectNodes scalingOps withoutHelper helperScene) = {bn_id helperNode}
   \<and> map bn_id (walk_nodes (selectNodes scalingOps
                   (withoutHelper\<lparr>removeNoopRootNodes := Some False\<rparr>) helperScene))
       = [bn_id triangleNode]
   \<and> \<not> isNoopNode scalingOps triangleNode (useRightHandedSystem helperScene)"
proof -
  have a: "selectNodes scalingOps withoutHelper helperScene
           = \<lparr>walk_nodes = [], walk_nodesToConvertToRightHanded = {},
              walk_removedRootNodes = {bn_id helperNode}\<rparr>"
    by (simp add: selectNodes_def withoutHelper_def helperScene_def removeNoopRootNode_def
        helperNode_noop triangleNode_not_noop splice1_def Let_def)
       (simp add: helperNode_def triangleNode_def)
  have b: "map bn_id (walk_nodes (selectNodes scalingOps
                   (withoutHelper\<lparr>removeNoopRootNodes := Some False\<rparr>) helperScene))
           = [bn_id triangleNode]"
    by (simp add: selectNodes_def withoutHelper_def helperScene_def Let_def)
       (simp add: helperNode_def triangleNode_def)
  have c: "\<not> isNoopNode scalingOps triangleNode (useRightHandedSystem helperScene)"
    by (simp add: helperScene_def triangleNode_not_noop)
  show ?thesis
    unfolding a using b c by simp
qed

subsection \<open>Extension hooks\<close>

lemma hookStep_Inl: "hookStep actionAsync (Inl e) extension = Inl e"
  by (simp add: hookStep_def)

lemma hookStep_Inr:
  "hookStep actionAsync (Inr node) extension
   = (case actionAsync extension node of
        NoPromise \<Rightarrow> Inr node | Resolved newNode \<Rightarrow> Inr newNode | Rejected e \<Rightarrow> Inl e)"
  by (simp add: hookStep_def)

lemma foldl_hookStep_Inl: "foldl (hookStep actionAsync) (Inl e) extensions = Inl e"
  by (induction extensions) (simp_all add: hookStep_Inl)

lemma applyExtension_drop:
  "applyExtension node extensions index actionAsync
   = foldl (hookStep actionAsync) (Inr node) (drop index extensions)"
proof (induction node extensions index actionAsync rule: applyExtension.induct)
  case (1 node extensions index actionAsync)
  show ?case
  proof (cases "index \<ge> length extensions")
    case True
    then show ?thesis by (subst applyExtension.simps) simp
  next
    case False
    then have d: "drop index extensions
                  = extensions ! index # drop (index + 1) extensions"
      by (simp add: Cons_nth_drop_Suc)
    show ?thesis
    proof (cases "actionAsync (extensions ! index) node")
      case NoPromise
      then show ?thesis
        using False "1.IH"(1) [OF False NoPromise]
        by (subst applyExtension.simps) (simp add: d hookStep_Inr)
    next
      case (Resolved newNode)
      then show ?thesis
        using False "1.IH"(2) [OF False Resolved]
        by (subst applyExtension.simps) (simp add: d hookStep_Inr)
    next
      case (Rejected e)
      then show ?thesis
        using False
        by (subst applyExtension.simps) (simp add: d hookStep_Inr foldl_hookStep_Inl)
    qed
  qed
qed

text \<open>
  C10. For every artifact and every list of registered extensions, the async extension
  hook pipeline applies the hooks strictly in registration order, each hook receiving
  the artifact as the previous hook left it; a hook that returns no result passes the
  artifact through unchanged. The final result equals an ordered fold over the
  extension list in which each step either replaces the carried artifact or leaves it
  unchanged.
\<close>

theorem applyExtensions_is_fold:
  "applyExtensions ExtensionNames extensions node actionAsync
   = hookFold actionAsync node (map extensions ExtensionNames)"
  by (simp add: applyExtensions_def hookFold_def applyExtension_drop)


end
